theory Spec2Isabelle
  imports Main "HOL-Library.Word"
begin

section \<open>The hybrid memory/storage buffer\<close>

text \<open>
  A shallow embedding of the Go package \<^verbatim>\<open>hybridbuffer\<close>: the struct
  \<^verbatim>\<open>hybridBuffer\<close> and its methods \<^verbatim>\<open>Write\<close>, \<^verbatim>\<open>Read\<close>,
  \<^verbatim>\<open>Reset\<close>, \<^verbatim>\<open>Close\<close>, \<^verbatim>\<open>Truncate\<close>, \<^verbatim>\<open>Len\<close>,
  \<^verbatim>\<open>Cap\<close>, \<^verbatim>\<open>flushToStorage\<close>, \<^verbatim>\<open>openWriteStream\<close> and
  \<^verbatim>\<open>openReadStream\<close>, with the options of \<^verbatim>\<open>options.go\<close>.

  Go's \<^verbatim>\<open>int\<close> is modelled as \<open>int\<close>: every value here is a length of data held
  in memory or a sum of two such lengths, far below \<open>2^63\<close>. A method that panics returns
  \<open>None\<close>; a method that returns gives \<open>Some\<close> of its results and the new state.
\<close>

subsection \<open>Data\<close>

type_synonym byte = "8 word"

text \<open>Go errors: \<^verbatim>\<open>io.EOF\<close>, an error raised by a storage backend or a
  middleware, and \<^verbatim>\<open>errors.Wrap(err, msg)\<close>.\<close>

datatype error = EOF | Failure string | Wrap error string

text \<open>
  An \<^verbatim>\<open>io.Writer\<close> is either the stream a backend's \<^verbatim>\<open>Create\<close> returned
  (identified by a number) or \<^verbatim>\<open>m.Writer(w)\<close> for a middleware \<open>m\<close>; likewise
  for readers. \<^verbatim>\<open>writeCloserWrapper\<close> and \<^verbatim>\<open>readCloserWrapper\<close> are the
  two wrapper structs of the source, holding the embedded stream and the underlying one.
\<close>

datatype 'm writer = StoreWriter nat | MwWriter 'm "'m writer"

datatype 'm reader = StoreReader nat | MwReader 'm "'m reader"

datatype 'm writeCloser = WriteCloser "'m writer" | WriteCloserWrapper "'m writer" "'m writer"

datatype 'm readCloser = ReadCloser "'m reader" | ReadCloserWrapper "'m reader" "'m reader"

text \<open>Every call the buffer makes on a collaborator (the storage provider, a backend, a
  stream) is recorded, oldest first.\<close>

datatype 'm call =
    CallProvider
  | CallCreate nat
  | CallOpen nat
  | CallRemove nat
  | CallWrite "'m writer" "byte list"
  | CallCloseWriter "'m writer"
  | CallRead "'m reader" nat
  | CallCloseReader "'m reader"

text \<open>
  The collaborators are interfaces (\<^verbatim>\<open>storage.Backend\<close>, \<^verbatim>\<open>middleware.Middleware\<close>,
  \<^verbatim>\<open>io.WriteCloser\<close>, \<^verbatim>\<open>io.ReadCloser\<close>) whose implementations are not part of the
  package: their methods are the fields of \<open>env\<close>, acting on a state \<open>'w\<close> of their own.
  A backend is a handle (a number). \<open>writerIsCloser m\<close> says whether the value
  \<^verbatim>\<open>m.Writer(w)\<close> implements \<^verbatim>\<open>io.Closer\<close> (the type assertions of the source).
\<close>

record ('m, 'w) env =
  backendCreate :: "nat \<Rightarrow> 'w \<Rightarrow> (error + nat) \<times> 'w"
  backendOpen :: "nat \<Rightarrow> 'w \<Rightarrow> (error + nat) \<times> 'w"
  backendRemove :: "nat \<Rightarrow> 'w \<Rightarrow> error option \<times> 'w"
  writerWrite :: "'m writer \<Rightarrow> byte list \<Rightarrow> 'w \<Rightarrow> (int \<times> error option) \<times> 'w"
  writerClose :: "'m writer \<Rightarrow> 'w \<Rightarrow> error option \<times> 'w"
  writerIsCloser :: "'m \<Rightarrow> bool"
  readerRead :: "'m reader \<Rightarrow> nat \<Rightarrow> 'w \<Rightarrow> (byte list \<times> error option) \<times> 'w"
  readerClose :: "'m reader \<Rightarrow> 'w \<Rightarrow> error option \<times> 'w"
  readerIsCloser :: "'m \<Rightarrow> bool"

record ('m, 'w) io =
  world :: 'w
  calls :: "'m call list"

text \<open>The struct \<^verbatim>\<open>hybridBuffer\<close>, field by field (\<open>size_buf\<close> is the field
  \<^verbatim>\<open>size\<close>).\<close>

record ('m, 'w) hybridBuffer =
  threshold :: int
  size_buf :: int
  offset :: int
  memoryBuffer :: "byte list"
  storageBackend :: "nat option"
  storageProvider :: "'w \<Rightarrow> nat \<times> 'w"
  writeStream :: "'m writeCloser option"
  readStream :: "'m readCloser option"
  middlewares :: "'m list"
  usingStorage :: bool
  preAllocSize :: int

type_synonym ('m, 'w) state = "('m, 'w) hybridBuffer \<times> ('m, 'w) io"

subsection \<open>Calls on the collaborators\<close>

definition call_provider :: "('m, 'w) hybridBuffer \<Rightarrow> ('m, 'w) io \<Rightarrow> nat \<times> ('m, 'w) io" where
  "call_provider b s =
     (case storageProvider b (world s) of
        (h, w) \<Rightarrow> (h, \<lparr>world = w, calls = calls s @ [CallProvider]\<rparr>))"

definition call_create :: "('m, 'w) env \<Rightarrow> nat \<Rightarrow> ('m, 'w) io \<Rightarrow> (error + nat) \<times> ('m, 'w) io" where
  "call_create env h s =
     (case backendCreate env h (world s) of
        (r, w) \<Rightarrow> (r, \<lparr>world = w, calls = calls s @ [CallCreate h]\<rparr>))"

definition call_open :: "('m, 'w) env \<Rightarrow> nat \<Rightarrow> ('m, 'w) io \<Rightarrow> (error + nat) \<times> ('m, 'w) io" where
  "call_open env h s =
     (case backendOpen env h (world s) of
        (r, w) \<Rightarrow> (r, \<lparr>world = w, calls = calls s @ [CallOpen h]\<rparr>))"

definition call_remove :: "('m, 'w) env \<Rightarrow> nat \<Rightarrow> ('m, 'w) io \<Rightarrow> error option \<times> ('m, 'w) io" where
  "call_remove env h s =
     (case backendRemove env h (world s) of
        (r, w) \<Rightarrow> (r, \<lparr>world = w, calls = calls s @ [CallRemove h]\<rparr>))"

definition call_write ::
  "('m, 'w) env \<Rightarrow> 'm writer \<Rightarrow> byte list \<Rightarrow> ('m, 'w) io \<Rightarrow> (int \<times> error option) \<times> ('m, 'w) io" where
  "call_write env wr p s =
     (case writerWrite env wr p (world s) of
        (r, w) \<Rightarrow> (r, \<lparr>world = w, calls = calls s @ [CallWrite wr p]\<rparr>))"

definition call_close_writer ::
  "('m, 'w) env \<Rightarrow> 'm writer \<Rightarrow> ('m, 'w) io \<Rightarrow> error option \<times> ('m, 'w) io" where
  "call_close_writer env wr s =
     (case writerClose env wr (world s) of
        (r, w) \<Rightarrow> (r, \<lparr>world = w, calls = calls s @ [CallCloseWriter wr]\<rparr>))"

definition call_read ::
  "('m, 'w) env \<Rightarrow> 'm reader \<Rightarrow> nat \<Rightarrow> ('m, 'w) io \<Rightarrow> (byte list \<times> error option) \<times> ('m, 'w) io" where
  "call_read env rd k s =
     (case readerRead env rd k (world s) of
        (r, w) \<Rightarrow> (r, \<lparr>world = w, calls = calls s @ [CallRead rd k]\<rparr>))"

definition call_close_reader ::
  "('m, 'w) env \<Rightarrow> 'm reader \<Rightarrow> ('m, 'w) io \<Rightarrow> error option \<times> ('m, 'w) io" where
  "call_close_reader env rd s =
     (case readerClose env rd (world s) of
        (r, w) \<Rightarrow> (r, \<lparr>world = w, calls = calls s @ [CallCloseReader rd]\<rparr>))"

subsection \<open>The wrapper structs\<close>

text \<open>The type assertions \<^verbatim>\<open>writer.(io.WriteCloser)\<close> and \<^verbatim>\<open>w.Writer.(io.Closer)\<close>:
  a backend's stream is a closer, a middleware's stream is one when the middleware makes
  it so.\<close>

fun writer_is_closer :: "('m, 'w) env \<Rightarrow> 'm writer \<Rightarrow> bool" where
  "writer_is_closer env (StoreWriter i) = True"
| "writer_is_closer env (MwWriter m w) = writerIsCloser env m"

fun reader_is_closer :: "('m, 'w) env \<Rightarrow> 'm reader \<Rightarrow> bool" where
  "reader_is_closer env (StoreReader i) = True"
| "reader_is_closer env (MwReader m r) = readerIsCloser env m"

text \<open>\<^verbatim>\<open>writeStream.Write\<close>: the wrapper embeds its \<^verbatim>\<open>io.Writer\<close>.\<close>

fun writeStream_Write ::
  "('m, 'w) env \<Rightarrow> 'm writeCloser \<Rightarrow> byte list \<Rightarrow> ('m, 'w) io \<Rightarrow> (int \<times> error option) \<times> ('m, 'w) io" where
  "writeStream_Write env (WriteCloser wr) p s = call_write env wr p s"
| "writeStream_Write env (WriteCloserWrapper wr u) p s = call_write env wr p s"

text \<open>\<^verbatim>\<open>writeStream.Close\<close>, for the wrapper the method
  \<^verbatim>\<open>(*writeCloserWrapper).Close\<close>.\<close>

fun writeStream_Close ::
  "('m, 'w) env \<Rightarrow> 'm writeCloser \<Rightarrow> ('m, 'w) io \<Rightarrow> error option \<times> ('m, 'w) io" where
  "writeStream_Close env (WriteCloser wr) s = call_close_writer env wr s"
| "writeStream_Close env (WriteCloserWrapper wr u) s =
     (if writer_is_closer env wr then
        (case call_close_writer env wr s of
           (Some err, s1) \<Rightarrow> (Some err, snd (call_close_writer env u s1))
         | (None, s1) \<Rightarrow> call_close_writer env u s1)
      else call_close_writer env u s)"

fun readStream_Read ::
  "('m, 'w) env \<Rightarrow> 'm readCloser \<Rightarrow> nat \<Rightarrow> ('m, 'w) io \<Rightarrow> (byte list \<times> error option) \<times> ('m, 'w) io" where
  "readStream_Read env (ReadCloser rd) k s = call_read env rd k s"
| "readStream_Read env (ReadCloserWrapper rd u) k s = call_read env rd k s"

fun readStream_Close ::
  "('m, 'w) env \<Rightarrow> 'm readCloser \<Rightarrow> ('m, 'w) io \<Rightarrow> error option \<times> ('m, 'w) io" where
  "readStream_Close env (ReadCloser rd) s = call_close_reader env rd s"
| "readStream_Close env (ReadCloserWrapper rd u) s =
     (if reader_is_closer env rd then
        (case call_close_reader env rd s of
           (Some err, s1) \<Rightarrow> (Some err, snd (call_close_reader env u s1))
         | (None, s1) \<Rightarrow> call_close_reader env u s1)
      else call_close_reader env u s)"

subsection \<open>Opening the streams\<close>

text \<open>The loop \<^verbatim>\<open>for _, middleware := range b.middlewares\<close> of
  \<^verbatim>\<open>openWriteStream\<close> wraps the backend's stream in the middlewares from the first to
  the last; the loop \<^verbatim>\<open>for i := len(b.middlewares) - 1; i >= 0; i--\<close> of
  \<^verbatim>\<open>openReadStream\<close> wraps it from the last to the first.\<close>

definition wrap_writers :: "'m list \<Rightarrow> 'm writer \<Rightarrow> 'm writer" where
  "wrap_writers ms writeStream0 = foldl (\<lambda>writer m. MwWriter m writer) writeStream0 ms"

definition wrap_readers :: "'m list \<Rightarrow> 'm reader \<Rightarrow> 'm reader" where
  "wrap_readers ms readStream0 = foldl (\<lambda>reader m. MwReader m reader) readStream0 (rev ms)"

text \<open>"Convert back to WriteCloser": the stream itself when it is a closer, else a
  \<^verbatim>\<open>writeCloserWrapper\<close> around it and the backend's stream; likewise for readers.\<close>

definition as_WriteCloser :: "('m, 'w) env \<Rightarrow> 'm writer \<Rightarrow> 'm writer \<Rightarrow> 'm writeCloser" where
  "as_WriteCloser env writer underlying =
     (if writer_is_closer env writer then WriteCloser writer
      else WriteCloserWrapper writer underlying)"

definition as_ReadCloser :: "('m, 'w) env \<Rightarrow> 'm reader \<Rightarrow> 'm reader \<Rightarrow> 'm readCloser" where
  "as_ReadCloser env reader underlying =
     (if reader_is_closer env reader then ReadCloser reader
      else ReadCloserWrapper reader underlying)"

text \<open>\<^verbatim>\<open>openWriteStream\<close>. A nil \<^verbatim>\<open>storageBackend\<close> makes
  \<^verbatim>\<open>b.storageBackend.Create()\<close> panic.\<close>

definition openWriteStream ::
  "('m, 'w) env \<Rightarrow> ('m, 'w) state \<Rightarrow> (error option \<times> ('m, 'w) state) option" where
  "openWriteStream env st =
     (case st of (b, s) \<Rightarrow>
        (case writeStream b of
           Some ws \<Rightarrow> Some (None, b, s)
         | None \<Rightarrow>
            (case storageBackend b of
               None \<Rightarrow> None
             | Some h \<Rightarrow>
                (case call_create env h s of
                   (Inl err, s1) \<Rightarrow>
                     Some (Some (Wrap err ''failed to create storage write stream''), b, s1)
                 | (Inr i, s1) \<Rightarrow>
                     Some (None,
                           b\<lparr>writeStream :=
                               Some (as_WriteCloser env (wrap_writers (middlewares b) (StoreWriter i))
                                       (StoreWriter i))\<rparr>,
                           s1)))))"

text \<open>\<^verbatim>\<open>openReadStream\<close>.\<close>

definition openReadStream ::
  "('m, 'w) env \<Rightarrow> ('m, 'w) state \<Rightarrow> (error option \<times> ('m, 'w) state) option" where
  "openReadStream env st =
     (case st of (b, s) \<Rightarrow>
        (case readStream b of
           Some rs \<Rightarrow> Some (None, b, s)
         | None \<Rightarrow>
            (case storageBackend b of
               None \<Rightarrow> None
             | Some h \<Rightarrow>
                (case call_open env h s of
                   (Inl err, s1) \<Rightarrow>
                     Some (Some (Wrap err ''failed to open storage read stream''), b, s1)
                 | (Inr i, s1) \<Rightarrow>
                     Some (None,
                           b\<lparr>readStream :=
                               Some (as_ReadCloser env (wrap_readers (middlewares b) (StoreReader i))
                                       (StoreReader i))\<rparr>,
                           s1)))))"

subsection \<open>The spill\<close>

text \<open>\<^verbatim>\<open>flushToStorage\<close>: a new backend from the provider, the write stream, the
  memory content written to it (when there is any), then \<^verbatim>\<open>usingStorage = true\<close>.\<close>

definition flushToStorage ::
  "('m, 'w) env \<Rightarrow> ('m, 'w) state \<Rightarrow> (error option \<times> ('m, 'w) state) option" where
  "flushToStorage env st =
     (case st of (b, s) \<Rightarrow>
        if usingStorage b then Some (None, b, s)
        else
          (case call_provider b s of (h, s1) \<Rightarrow>
             (case openWriteStream env (b\<lparr>storageBackend := Some h\<rparr>, s1) of
                None \<Rightarrow> None
              | Some (Some err, b2, s2) \<Rightarrow> Some (Some err, b2, s2)
              | Some (None, b2, s2) \<Rightarrow>
                 (let memData = memoryBuffer b2 in
                  if length memData > 0 then
                    (case writeStream b2 of
                       None \<Rightarrow> None
                     | Some ws \<Rightarrow>
                        (case writeStream_Write env ws memData s2 of
                           ((n, Some err), s3) \<Rightarrow>
                             Some (Some (Wrap err ''failed to write memory data to storage''), b2, s3)
                         | ((n, None), s3) \<Rightarrow> Some (None, b2\<lparr>usingStorage := True\<rparr>, s3)))
                  else Some (None, b2\<lparr>usingStorage := True\<rparr>, s2)))))"

subsection \<open>Write and Read\<close>

text \<open>\<^verbatim>\<open>Write\<close>. \<^verbatim>\<open>memoryBuffer.Write\<close> (a \<^verbatim>\<open>bytes.Buffer\<close>) appends the data and
  returns its length and no error.\<close>

definition Write ::
  "('m, 'w) env \<Rightarrow> byte list \<Rightarrow> ('m, 'w) state \<Rightarrow> ((int \<times> error option) \<times> ('m, 'w) state) option" where
  "Write env data st =
     (case st of (b, s) \<Rightarrow>
        if length data = 0 then Some ((0, None), b, s)
        else
          (case (if \<not> usingStorage b \<and> int (length (memoryBuffer b)) + int (length data) > threshold b
                 then flushToStorage env (b, s) else Some (None, b, s)) of
             None \<Rightarrow> None
           | Some (Some err, b1, s1) \<Rightarrow> Some ((0, Some (Wrap err ''failed to flush to storage'')), b1, s1)
           | Some (None, b1, s1) \<Rightarrow>
              (case (if usingStorage b1 then
                       (case (if writeStream b1 = None then openWriteStream env (b1, s1)
                              else Some (None, b1, s1)) of
                          None \<Rightarrow> None
                        | Some (Some err, b2, s2) \<Rightarrow>
                            Some (Inl (Wrap err ''failed to open write stream''), b2, s2)
                        | Some (None, b2, s2) \<Rightarrow>
                           (case writeStream b2 of
                              None \<Rightarrow> None
                            | Some ws \<Rightarrow>
                               (case writeStream_Write env ws data s2 of
                                  (r, s3) \<Rightarrow> Some (Inr r, b2, s3))))
                     else
                       Some (Inr (int (length data), None),
                             b1\<lparr>memoryBuffer := memoryBuffer b1 @ data\<rparr>, s1)) of
                 None \<Rightarrow> None
               | Some (Inl err, b3, s3) \<Rightarrow> Some ((0, Some err), b3, s3)
               | Some (Inr (n, err), b3, s3) \<Rightarrow>
                   Some ((n, err), (if err = None then b3\<lparr>size_buf := size_buf b3 + n\<rparr> else b3), s3))))"

text \<open>\<^verbatim>\<open>Read\<close>, for a destination slice of length \<open>len_data\<close>; the result holds the
  bytes copied into the slice (their number is the \<^verbatim>\<open>n\<close> of the source) and the
  error. \<^verbatim>\<open>memData[b.offset:endPos]\<close> panics for a negative offset.\<close>

definition Read ::
  "('m, 'w) env \<Rightarrow> nat \<Rightarrow> ('m, 'w) state \<Rightarrow> ((byte list \<times> error option) \<times> ('m, 'w) state) option" where
  "Read env len_data st =
     (case st of (b, s) \<Rightarrow>
        if offset b \<ge> size_buf b then Some (([], Some EOF), b, s)
        else
          (case (case writeStream b of
                   Some ws \<Rightarrow> (b\<lparr>writeStream := None\<rparr>, snd (writeStream_Close env ws s))
                 | None \<Rightarrow> (b, s)) of
             (b1, s1) \<Rightarrow>
               (let available = size_buf b1 - offset b1;
                    bytesToRead = (if int len_data > available then available else int len_data)
                in
                  if usingStorage b1 then
                    (case (if readStream b1 = None then openReadStream env (b1, s1)
                           else Some (None, b1, s1)) of
                       None \<Rightarrow> None
                     | Some (Some err, b2, s2) \<Rightarrow>
                         Some (([], Some (Wrap err ''failed to open read stream'')), b2, s2)
                     | Some (None, b2, s2) \<Rightarrow>
                        (case readStream b2 of
                           None \<Rightarrow> None
                         | Some rs \<Rightarrow>
                            (case readStream_Read env rs (nat bytesToRead) s2 of
                               ((bs, err), s3) \<Rightarrow>
                                 Some ((bs, err), b2\<lparr>offset := offset b2 + int (length bs)\<rparr>, s3))))
                  else
                    (let memData = memoryBuffer b1 in
                     if offset b1 < int (length memData) then
                       (if offset b1 < 0 then None
                        else
                          (let endPos = (if offset b1 + bytesToRead > int (length memData)
                                         then int (length memData) else offset b1 + bytesToRead);
                               bs = take len_data (take (nat (endPos - offset b1)) (drop (nat (offset b1)) memData))
                           in Some ((bs, None), b1\<lparr>offset := offset b1 + int (length bs)\<rparr>, s1)))
                     else Some (([], None), b1, s1)))))"

subsection \<open>Sizes\<close>

definition Len :: "('m, 'w) hybridBuffer \<Rightarrow> int" where
  "Len b = size_buf b - offset b"

definition Cap :: "('m, 'w) hybridBuffer \<Rightarrow> int" where
  "Cap b = Len b"

definition Available :: "('m, 'w) hybridBuffer \<Rightarrow> int" where
  "Available b = (if usingStorage b then 0 else threshold b - int (length (memoryBuffer b)))"

definition Size :: "('m, 'w) hybridBuffer \<Rightarrow> int" where
  "Size b = size_buf b"

subsection \<open>Reset, Close and Truncate\<close>

text \<open>\<^verbatim>\<open>Reset\<close> drops the errors of the streams and of the backend.\<close>

definition Reset :: "('m, 'w) env \<Rightarrow> ('m, 'w) state \<Rightarrow> ('m, 'w) state" where
  "Reset env st =
     (case st of (b, s) \<Rightarrow>
        (case (case writeStream b of
                 Some ws \<Rightarrow> (b\<lparr>writeStream := None\<rparr>, snd (writeStream_Close env ws s))
               | None \<Rightarrow> (b, s)) of
           (b1, s1) \<Rightarrow>
             (case (case readStream b1 of
                      Some rs \<Rightarrow> (b1\<lparr>readStream := None\<rparr>, snd (readStream_Close env rs s1))
                    | None \<Rightarrow> (b1, s1)) of
                (b2, s2) \<Rightarrow>
                  (case (case storageBackend b2 of
                           Some h \<Rightarrow> (b2\<lparr>storageBackend := None\<rparr>, snd (call_remove env h s2))
                         | None \<Rightarrow> (b2, s2)) of
                     (b3, s3) \<Rightarrow>
                       (b3\<lparr>memoryBuffer := [], size_buf := 0, offset := 0, usingStorage := False\<rparr>,
                        s3)))))"

text \<open>\<^verbatim>\<open>Close\<close>: the variable \<^verbatim>\<open>lastErr\<close> is assigned by each step that fails.\<close>

definition Close :: "('m, 'w) env \<Rightarrow> ('m, 'w) state \<Rightarrow> error option \<times> ('m, 'w) state" where
  "Close env st =
     (case st of (b, s) \<Rightarrow>
        (case (case writeStream b of
                 Some ws \<Rightarrow>
                   (case writeStream_Close env ws s of
                      (Some err, s1) \<Rightarrow> (Some err, b\<lparr>writeStream := None\<rparr>, s1)
                    | (None, s1) \<Rightarrow> (None, b\<lparr>writeStream := None\<rparr>, s1))
               | None \<Rightarrow> (None, b, s)) of
           (lastErr1, b1, s1) \<Rightarrow>
             (case (case readStream b1 of
                      Some rs \<Rightarrow>
                        (case readStream_Close env rs s1 of
                           (Some err, s2) \<Rightarrow> (Some err, b1\<lparr>readStream := None\<rparr>, s2)
                         | (None, s2) \<Rightarrow> (lastErr1, b1\<lparr>readStream := None\<rparr>, s2))
                    | None \<Rightarrow> (lastErr1, b1, s1)) of
                (lastErr2, b2, s2) \<Rightarrow>
                  (case storageBackend b2 of
                     Some h \<Rightarrow>
                       (case call_remove env h s2 of
                          (Some err, s3) \<Rightarrow> (Some err, b2\<lparr>storageBackend := None\<rparr>, s3)
                        | (None, s3) \<Rightarrow> (lastErr2, b2\<lparr>storageBackend := None\<rparr>, s3))
                   | None \<Rightarrow> (lastErr2, b2, s2)))))"

text \<open>\<^verbatim>\<open>Truncate\<close>: out of range it panics; the results of its \<^verbatim>\<open>Read\<close> and
  \<^verbatim>\<open>Write\<close> other than the bytes read are dropped.\<close>

definition Truncate :: "('m, 'w) env \<Rightarrow> int \<Rightarrow> ('m, 'w) state \<Rightarrow> ('m, 'w) state option" where
  "Truncate env n st =
     (case st of (b, s) \<Rightarrow>
        if n < 0 \<or> n > size_buf b then None
        else if n = 0 then Some (Reset env (b, s))
        else
          (let oldOffset = offset b;
               b0 = b\<lparr>offset := 0\<rparr>
           in
             (case (case readStream b0 of
                      Some rs \<Rightarrow> (b0\<lparr>readStream := None\<rparr>, snd (readStream_Close env rs s))
                    | None \<Rightarrow> (b0, s)) of
                (b1, s1) \<Rightarrow>
                  (case Read env (nat n) (b1, s1) of
                     None \<Rightarrow> None
                   | Some ((bs, err), st2) \<Rightarrow>
                      (case Write env bs (Reset env st2) of
                         None \<Rightarrow> None
                       | Some (r, b4, s4) \<Rightarrow>
                           Some ((if oldOffset < int (length bs) then b4\<lparr>offset := oldOffset\<rparr> else b4),
                                 s4))))))"

subsection \<open>Construction\<close>

text \<open>The options of \<^verbatim>\<open>options.go\<close> and \<^verbatim>\<open>New\<close>. The default provider
  \<^verbatim>\<open>filesystem.New()\<close> lies outside the package and is a parameter. Capacities of the
  memory buffer (\<^verbatim>\<open>Grow\<close>) are not part of the state.\<close>

datatype ('m, 'w) Option =
    WithThreshold int
  | WithMiddleware "'m list"
  | WithStorage "'w \<Rightarrow> nat \<times> 'w"
  | WithPreAlloc int

fun apply_Option :: "('m, 'w) hybridBuffer \<Rightarrow> ('m, 'w) Option \<Rightarrow> ('m, 'w) hybridBuffer" where
  "apply_Option b (WithThreshold n) = (if n > 0 then b\<lparr>threshold := n\<rparr> else b)"
| "apply_Option b (WithMiddleware ms) = b\<lparr>middlewares := middlewares b @ ms\<rparr>"
| "apply_Option b (WithStorage p) = b\<lparr>storageProvider := p\<rparr>"
| "apply_Option b (WithPreAlloc n) = (if n > 0 then b\<lparr>preAllocSize := n\<rparr> else b)"

definition New :: "('w \<Rightarrow> nat \<times> 'w) \<Rightarrow> ('m, 'w) Option list \<Rightarrow> ('m, 'w) hybridBuffer" where
  "New filesystem_New opts =
     (let buf = foldl apply_Option
                  \<lparr>threshold = 2097152, size_buf = 0, offset = 0, memoryBuffer = [],
                   storageBackend = None, storageProvider = filesystem_New,
                   writeStream = None, readStream = None, middlewares = [],
                   usingStorage = False, preAllocSize = 0\<rparr> opts
      in if preAllocSize buf = 0 then buf\<lparr>preAllocSize := threshold buf div 2\<rparr> else buf)"

subsection \<open>Sequences of public operations\<close>

text \<open>A caller works on a buffer through its methods, one after the other; a panic ends
  the sequence.\<close>

datatype operation = OpWrite "byte list" | OpRead nat | OpTruncate int | OpReset | OpClose

datatype outcome =
    Written int "error option"
  | Got "byte list" "error option"
  | Closed "error option"
  | Done

fun step :: "('m, 'w) env \<Rightarrow> operation \<Rightarrow> ('m, 'w) state \<Rightarrow> (outcome \<times> ('m, 'w) state) option" where
  "step env (OpWrite p) st =
     (case Write env p st of None \<Rightarrow> None | Some ((n, err), st1) \<Rightarrow> Some (Written n err, st1))"
| "step env (OpRead k) st =
     (case Read env k st of None \<Rightarrow> None | Some ((bs, err), st1) \<Rightarrow> Some (Got bs err, st1))"
| "step env (OpTruncate n) st =
     (case Truncate env n st of None \<Rightarrow> None | Some st1 \<Rightarrow> Some (Done, st1))"
| "step env OpReset st = Some (Done, Reset env st)"
| "step env OpClose st = (case Close env st of (err, st1) \<Rightarrow> Some (Closed err, st1))"

fun run :: "('m, 'w) env \<Rightarrow> operation list \<Rightarrow> ('m, 'w) state \<Rightarrow> (outcome list \<times> ('m, 'w) state) option" where
  "run env [] st = Some ([], st)"
| "run env (x # xs) st =
     (case step env x st of
        None \<Rightarrow> None
      | Some (r, st1) \<Rightarrow>
         (case run env xs st1 of
            None \<Rightarrow> None
          | Some (rs, st2) \<Rightarrow> Some (r # rs, st2)))"

text \<open>What is left after a sequence: the outcomes, the buffer and the calls made.\<close>

definition outcomes :: "(outcome list \<times> ('m, 'w) state) option \<Rightarrow> outcome list option" where
  "outcomes r = map_option fst r"

definition final_buffer :: "(outcome list \<times> ('m, 'w) state) option \<Rightarrow> ('m, 'w) hybridBuffer option" where
  "final_buffer r = map_option (fst \<circ> snd) r"

definition final_calls :: "(outcome list \<times> ('m, 'w) state) option \<Rightarrow> 'm call list option" where
  "final_calls r = map_option (calls \<circ> snd \<circ> snd) r"

subsection \<open>What holds of a buffer between calls\<close>

text \<open>The read position is never negative and the threshold is positive; while the
  buffer is in memory mode its size is the length of the memory content, which is at most
  the threshold.\<close>

definition buffer_inv :: "('m, 'w) hybridBuffer \<Rightarrow> bool" where
  "buffer_inv b =
     (0 \<le> offset b \<and> 0 < threshold b \<and>
      (usingStorage b \<or>
       (size_buf b = int (length (memoryBuffer b)) \<and>
        int (length (memoryBuffer b)) \<le> threshold b)))"

subsection \<open>The nesting of the streams as the specification words it\<close>

text \<open>For a pipeline \<open>[T1, ..., Tn]\<close> the specification's write stream is
  \<open>T1.wrap_writer(T2.wrap_writer(... Tn.wrap_writer(store_writer)))\<close> and its read stream
  \<open>Tn.wrap_reader(... T1.wrap_reader(store_reader))\<close>.\<close>

definition spec_write_nesting :: "'m list \<Rightarrow> 'm writer \<Rightarrow> 'm writer" where
  "spec_write_nesting ms store_writer = foldr MwWriter ms store_writer"

definition spec_read_nesting :: "'m list \<Rightarrow> 'm reader \<Rightarrow> 'm reader" where
  "spec_read_nesting ms store_reader = foldl (\<lambda>r m. MwReader m r) store_reader ms"

text \<open>The \<^verbatim>\<open>io.Writer\<close> and \<^verbatim>\<open>io.Reader\<close> that take and give the caller's bytes.\<close>

fun writer_of :: "'m writeCloser \<Rightarrow> 'm writer" where
  "writer_of (WriteCloser wr) = wr"
| "writer_of (WriteCloserWrapper wr u) = wr"

fun reader_of :: "'m readCloser \<Rightarrow> 'm reader" where
  "reader_of (ReadCloser rd) = rd"
| "reader_of (ReadCloserWrapper rd u) = rd"

subsection \<open>Collaborators to run the buffer with\<close>

text \<open>
  The backend is \<^verbatim>\<open>mockStorageBackend\<close> of \<^verbatim>\<open>buffer_test.go\<close> with its
  \<^verbatim>\<open>mockWriteCloser\<close> and \<^verbatim>\<open>mockReadCloser\<close>: \<^verbatim>\<open>Create\<close> and \<^verbatim>\<open>Open\<close>
  rewind the positions, \<^verbatim>\<open>Write\<close> copies at the write position, \<^verbatim>\<open>Read\<close> reports
  \<^verbatim>\<open>io.EOF\<close> with the last bytes, \<^verbatim>\<open>Remove\<close> drops the data. The provider hands out
  a new backend at each call. Faults can be switched on: \<open>create_fault\<close>,
  \<open>close_fault\<close> and \<open>remove_fault\<close> make the call fail; each of the next
  \<open>faulty_writes\<close> writes fails after \<open>fault_ack\<close> bytes, as \<^verbatim>\<open>failingWriter\<close>
  of the tests does after five.
\<close>

record store_world =
  next_handle :: nat
  store_data :: "nat \<Rightarrow> byte list"
  store_writePos :: "nat \<Rightarrow> nat"
  store_readPos :: "nat \<Rightarrow> nat"
  pending :: "nat \<Rightarrow> byte list"
  create_fault :: bool
  close_fault :: bool
  remove_fault :: bool
  faulty_writes :: nat
  fault_ack :: nat

text \<open>Modelled from the spec: the middlewares (package \<^verbatim>\<open>middleware\<close>, not among
  the sources). A Transform is a lossless codec on whole streams: the writer it wraps
  around \<open>inner\<close> holds the bytes written to it and, when closed, writes their encoded
  form to \<open>inner\<close> and closes \<open>inner\<close>; the reader it wraps around \<open>inner\<close> yields the
  decoded form of what \<open>inner\<close> yields. Its writers and readers are closers.\<close>

record codec =
  enc :: "byte list \<Rightarrow> byte list"
  dec :: "byte list \<Rightarrow> byte list"

definition lossless :: "codec \<Rightarrow> bool" where
  "lossless c = (\<forall>x. dec c (enc c x) = x)"

fun writer_base :: "'m writer \<Rightarrow> nat" where
  "writer_base (StoreWriter i) = i"
| "writer_base (MwWriter m w) = writer_base w"

fun reader_base :: "'m reader \<Rightarrow> nat" where
  "reader_base (StoreReader i) = i"
| "reader_base (MwReader m r) = reader_base r"

fun encode_through :: "codec writer \<Rightarrow> byte list \<Rightarrow> byte list" where
  "encode_through (StoreWriter i) x = x"
| "encode_through (MwWriter m w) x = encode_through w (enc m x)"

fun decode_through :: "codec reader \<Rightarrow> byte list \<Rightarrow> byte list" where
  "decode_through (StoreReader i) x = x"
| "decode_through (MwReader m r) x = dec m (decode_through r x)"

definition fresh_backend :: "store_world \<Rightarrow> nat \<times> store_world" where
  "fresh_backend w = (next_handle w, w\<lparr>next_handle := Suc (next_handle w)\<rparr>)"

definition store_put :: "nat \<Rightarrow> byte list \<Rightarrow> store_world \<Rightarrow> store_world" where
  "store_put h p w =
     (let d = store_data w h; pos = store_writePos w h
      in w\<lparr>store_data := (store_data w)(h := take pos d @ p @ drop (pos + length p) d),
           store_writePos := (store_writePos w)(h := pos + length p)\<rparr>)"

definition accept_bytes :: "codec writer \<Rightarrow> byte list \<Rightarrow> store_world \<Rightarrow> store_world" where
  "accept_bytes wr p w =
     (case wr of
        StoreWriter i \<Rightarrow> store_put i p w
      | MwWriter m inner \<Rightarrow>
          w\<lparr>pending := (pending w)(writer_base wr := pending w (writer_base wr) @ p)\<rparr>)"

definition mock_Create :: "nat \<Rightarrow> store_world \<Rightarrow> (error + nat) \<times> store_world" where
  "mock_Create h w =
     (if create_fault w then (Inl (Failure ''create failed''), w)
      else (Inr h, w\<lparr>store_writePos := (store_writePos w)(h := 0), pending := (pending w)(h := [])\<rparr>))"

definition mock_Open :: "nat \<Rightarrow> store_world \<Rightarrow> (error + nat) \<times> store_world" where
  "mock_Open h w = (Inr h, w\<lparr>store_readPos := (store_readPos w)(h := 0)\<rparr>)"

definition mock_Remove :: "nat \<Rightarrow> store_world \<Rightarrow> error option \<times> store_world" where
  "mock_Remove h w =
     (if remove_fault w then Some (Failure ''remove failed'') else None,
      w\<lparr>store_data := (store_data w)(h := [])\<rparr>)"

definition mock_Write ::
  "codec writer \<Rightarrow> byte list \<Rightarrow> store_world \<Rightarrow> (int \<times> error option) \<times> store_world" where
  "mock_Write wr p w =
     (if faulty_writes w > 0 then
        ((int (min (fault_ack w) (length p)), Some (Failure ''simulated write failure'')),
         accept_bytes wr (take (fault_ack w) p) (w\<lparr>faulty_writes := faulty_writes w - 1\<rparr>))
      else ((int (length p), None), accept_bytes wr p w))"

definition mock_CloseWriter :: "codec writer \<Rightarrow> store_world \<Rightarrow> error option \<times> store_world" where
  "mock_CloseWriter wr w =
     (if close_fault w then (Some (Failure ''close failed''), w)
      else
        (None,
         (case wr of
            StoreWriter i \<Rightarrow> w
          | MwWriter m inner \<Rightarrow>
              store_put (writer_base wr) (encode_through wr (pending w (writer_base wr)))
                (w\<lparr>pending := (pending w)(writer_base wr := [])\<rparr>))))"

definition mock_Read ::
  "codec reader \<Rightarrow> nat \<Rightarrow> store_world \<Rightarrow> (byte list \<times> error option) \<times> store_world" where
  "mock_Read rd k w =
     (let h = reader_base rd;
          content = decode_through rd (store_data w h);
          pos = store_readPos w h
      in if pos \<ge> length content then (([], Some EOF), w)
         else
           (let toRead = min k (length content - pos)
            in ((take toRead (drop pos content),
                 if pos + toRead \<ge> length content then Some EOF else None),
                w\<lparr>store_readPos := (store_readPos w)(h := pos + toRead)\<rparr>)))"

definition mock_CloseReader :: "codec reader \<Rightarrow> store_world \<Rightarrow> error option \<times> store_world" where
  "mock_CloseReader rd w = (None, w)"

definition mock_env :: "(codec, store_world) env" where
  "mock_env =
     \<lparr>backendCreate = mock_Create, backendOpen = mock_Open, backendRemove = mock_Remove,
      writerWrite = mock_Write, writerClose = mock_CloseWriter, writerIsCloser = (\<lambda>m. True),
      readerRead = mock_Read, readerClose = mock_CloseReader, readerIsCloser = (\<lambda>m. True)\<rparr>"

definition world0 :: store_world where
  "world0 =
     \<lparr>next_handle = 0, store_data = (\<lambda>h. []), store_writePos = (\<lambda>h. 0),
      store_readPos = (\<lambda>h. 0), pending = (\<lambda>h. []), create_fault = False,
      close_fault = False, remove_fault = False, faulty_writes = 0, fault_ack = 0\<rparr>"

definition io0 :: "store_world \<Rightarrow> (codec, store_world) io" where
  "io0 w = \<lparr>world = w, calls = []\<rparr>"

text \<open>Two lossless codecs: \<open>frame\<close> puts a header byte in front of the stream and
  takes the first byte off again; \<open>cipher\<close> adds to each byte its position in the
  stream and subtracts it again.\<close>

fun add_position :: "nat \<Rightarrow> byte list \<Rightarrow> byte list" where
  "add_position k [] = []"
| "add_position k (x # xs) = (x + of_nat k) # add_position (Suc k) xs"

fun sub_position :: "nat \<Rightarrow> byte list \<Rightarrow> byte list" where
  "sub_position k [] = []"
| "sub_position k (x # xs) = (x - of_nat k) # sub_position (Suc k) xs"

definition frame :: codec where
  "frame = \<lparr>enc = (\<lambda>x. 170 # x), dec = tl\<rparr>"

definition cipher :: codec where
  "cipher = \<lparr>enc = add_position 0, dec = sub_position 0\<rparr>"

section \<open>Properties\<close>

subsection \<open>Auxiliary facts\<close>

lemmas buffer_defs = Write_def Read_def Reset_def Close_def Truncate_def flushToStorage_def
  openWriteStream_def openReadStream_def New_def as_WriteCloser_def as_ReadCloser_def
  wrap_writers_def wrap_readers_def
  call_provider_def call_create_def call_open_def call_remove_def
  call_write_def call_close_writer_def call_read_def call_close_reader_def

lemmas mock_defs = mock_env_def mock_Create_def mock_Open_def mock_Remove_def mock_Write_def
  mock_CloseWriter_def mock_Read_def mock_CloseReader_def fresh_backend_def store_put_def
  accept_bytes_def world0_def io0_def frame_def cipher_def

lemmas run_defs = outcomes_def final_buffer_def final_calls_def

lemma wrap_readers_foldr: "wrap_readers ms r0 = foldr MwReader ms r0"
  by (simp add: wrap_readers_def foldr_conv_foldl)

lemma wrap_writers_short:
  "length ms \<le> 1 \<Longrightarrow> wrap_writers ms w0 = spec_write_nesting ms w0"
  by (cases ms) (auto simp: spec_write_nesting_def wrap_writers_def)

lemma writer_of_as_WriteCloser [simp]: "writer_of (as_WriteCloser env wr u) = wr"
  by (simp add: as_WriteCloser_def)

lemma reader_of_as_ReadCloser [simp]: "reader_of (as_ReadCloser env rd u) = rd"
  by (simp add: as_ReadCloser_def)

lemma as_WriteCloser_store [simp]:
  "as_WriteCloser env (StoreWriter i) u = WriteCloser (StoreWriter i)"
  by (simp add: as_WriteCloser_def)

lemma as_ReadCloser_store [simp]:
  "as_ReadCloser env (StoreReader i) u = ReadCloser (StoreReader i)"
  by (simp add: as_ReadCloser_def)

lemma writeStream_Write_writer_of:
  "writeStream_Write env ws p s = call_write env (writer_of ws) p s"
  by (cases ws) simp_all

lemma readStream_Read_reader_of:
  "readStream_Read env rs k s = call_read env (reader_of rs) k s"
  by (cases rs) simp_all

lemma openReadStream_opens:
  assumes "readStream b = None" "storageBackend b = Some h"
    and "backendOpen env h (world s) = (Inr i, w1)"
  shows "openReadStream env (b, s) =
           Some (None,
                 b\<lparr>readStream := Some (as_ReadCloser env (wrap_readers (middlewares b) (StoreReader i))
                                         (StoreReader i))\<rparr>,
                 \<lparr>world = w1, calls = calls s @ [CallOpen h]\<rparr>)"
  using assms by (simp add: openReadStream_def call_open_def)

lemma openWriteStream_opens:
  assumes "writeStream b = None" "storageBackend b = Some h"
    and "backendCreate env h (world s) = (Inr i, w1)"
  shows "openWriteStream env (b, s) =
           Some (None,
                 b\<lparr>writeStream := Some (as_WriteCloser env (wrap_writers (middlewares b) (StoreWriter i))
                                          (StoreWriter i))\<rparr>,
                 \<lparr>world = w1, calls = calls s @ [CallCreate h]\<rparr>)"
  using assms by (simp add: openWriteStream_def call_create_def)

text \<open>A spill that meets no error: the provider, \<^verbatim>\<open>Create\<close>, and the memory content
  through the new stream when there is any.\<close>

lemma flushToStorage_succeeds:
  assumes "\<not> usingStorage b" "writeStream b = None"
    and "storageProvider b (world s) = (h, w1)"
    and "backendCreate env h w1 = (Inr i, w2)"
    and "if memoryBuffer b = [] then w3 = w2
         else \<exists>n0. writerWrite env (wrap_writers (middlewares b) (StoreWriter i)) (memoryBuffer b) w2
                      = ((n0, None), w3)"
  shows "flushToStorage env (b, s) =
           Some (None,
                 b\<lparr>storageBackend := Some h,
                   writeStream := Some (as_WriteCloser env (wrap_writers (middlewares b) (StoreWriter i))
                                          (StoreWriter i)),
                   usingStorage := True\<rparr>,
                 \<lparr>world = w3,
                  calls = calls s @ [CallProvider, CallCreate h] @
                          (if memoryBuffer b = [] then []
                           else [CallWrite (wrap_writers (middlewares b) (StoreWriter i)) (memoryBuffer b)])\<rparr>)"
proof -
  let ?b1 = "b\<lparr>storageBackend := Some h\<rparr>"
  let ?s1 = "\<lparr>world = w1, calls = calls s @ [CallProvider]\<rparr>"
  let ?W = "wrap_writers (middlewares b) (StoreWriter i)"
  have p: "call_provider b s = (h, ?s1)"
    using assms(3) by (simp add: call_provider_def)
  have o: "openWriteStream env (?b1, ?s1) =
             Some (None,
                   ?b1\<lparr>writeStream := Some (as_WriteCloser env ?W (StoreWriter i))\<rparr>,
                   \<lparr>world = w2, calls = calls ?s1 @ [CallCreate h]\<rparr>)"
    using openWriteStream_opens [of ?b1 h env ?s1 i w2] assms(2,4) by simp
  show ?thesis
  proof (cases "memoryBuffer b = []")
    case True
    with assms(5) have "w3 = w2" by simp
    with True assms(1) p o show ?thesis
      by (simp add: flushToStorage_def)
  next
    case False
    with assms(5) obtain n0 where "writerWrite env ?W (memoryBuffer b) w2 = ((n0, None), w3)"
      by auto
    with False assms(1) p o show ?thesis
      by (simp add: flushToStorage_def writeStream_Write_writer_of call_write_def)
  qed
qed

text \<open>Closing a write stream makes calls that close writers, at least one, and no other.\<close>

lemma writeStream_Close_calls:
  "\<exists>cs. calls (snd (writeStream_Close env ws s)) = calls s @ cs \<and> cs \<noteq> [] \<and>
        (\<forall>c\<in>set cs. \<exists>wr. c = CallCloseWriter wr)"
  by (cases ws) (auto simp: call_close_writer_def split: prod.splits option.splits)

text \<open>A \<^verbatim>\<open>Read\<close> that finds no write stream opens and reads, and nothing else.\<close>

lemma Read_after_close_calls:
  assumes "writeStream b = None" and "Read env len_data (b, s) = Some (r, b', s')"
  shows "writeStream b' = None \<and>
         (\<exists>rest. calls s' = calls s @ rest \<and>
                 (\<forall>c\<in>set rest. (\<exists>h. c = CallOpen h) \<or> (\<exists>rd k. c = CallRead rd k)))"
  using assms
  by (auto simp: Read_def Let_def openReadStream_def call_open_def call_read_def
      readStream_Read_reader_of
      split: if_splits option.splits prod.splits sum.splits)

text \<open>The two codecs are lossless and differ.\<close>

lemma frame_lossless: "lossless frame"
  by (simp add: lossless_def frame_def)

lemma sub_add_position: "sub_position k (add_position k xs) = xs"
  by (induction xs arbitrary: k) simp_all

lemma cipher_lossless: "lossless cipher"
  by (simp add: lossless_def cipher_def sub_add_position)

lemma frame_neq_cipher: "frame \<noteq> cipher"
proof
  assume "frame = cipher"
  then have "enc frame [] = enc cipher []" by simp
  then show False by (simp add: frame_def cipher_def)
qed

subsection \<open>The state between calls\<close>

text \<open>\<open>buffer_inv\<close> holds of a new buffer and after every sequence of public
  operations, whatever the collaborators do.\<close>

lemma apply_Option_fields:
  "size_buf (apply_Option b x) = size_buf b \<and> offset (apply_Option b x) = offset b \<and>
   memoryBuffer (apply_Option b x) = memoryBuffer b \<and>
   usingStorage (apply_Option b x) = usingStorage b \<and>
   (0 < threshold b \<longrightarrow> 0 < threshold (apply_Option b x))"
  by (cases x) simp_all

lemma foldl_apply_Option_fields:
  "size_buf (foldl apply_Option b xs) = size_buf b \<and> offset (foldl apply_Option b xs) = offset b \<and>
   memoryBuffer (foldl apply_Option b xs) = memoryBuffer b \<and>
   usingStorage (foldl apply_Option b xs) = usingStorage b \<and>
   (0 < threshold b \<longrightarrow> 0 < threshold (foldl apply_Option b xs))"
proof (induction xs arbitrary: b)
  case Nil
  show ?case by simp
next
  case (Cons x xs)
  from Cons.IH [of "apply_Option b x"] apply_Option_fields [of b x]
  show ?case by simp
qed

lemma New_inv: "buffer_inv (New p opts)"
  using foldl_apply_Option_fields
    [of "\<lparr>threshold = 2097152, size_buf = 0, offset = 0, memoryBuffer = [],
          storageBackend = None, storageProvider = p,
          writeStream = None, readStream = None, middlewares = [],
          usingStorage = False, preAllocSize = 0\<rparr>" opts]
  by (simp add: New_def buffer_inv_def Let_def)

lemma flushToStorage_fields:
  assumes "flushToStorage env (b, s) = Some (e, b', s')"
  shows "size_buf b' = size_buf b \<and> offset b' = offset b \<and> memoryBuffer b' = memoryBuffer b \<and>
         threshold b' = threshold b \<and> (usingStorage b \<longrightarrow> usingStorage b') \<and>
         (e \<noteq> None \<longrightarrow> usingStorage b' = usingStorage b)"
  using assms
  by (auto simp: flushToStorage_def openWriteStream_def Let_def
      split: option.splits prod.splits sum.splits if_splits)

lemma Write_inv:
  assumes "buffer_inv b" and "Write env data (b, s) = Some (r, b', s')"
  shows "buffer_inv b'"
proof (cases "data = []")
  case True
  with assms show ?thesis by (simp add: Write_def)
next
  case False
  show ?thesis
  proof (cases "\<not> usingStorage b \<and> int (length (memoryBuffer b)) + int (length data) > threshold b")
    case True
    then obtain e b1 s1 where f: "flushToStorage env (b, s) = Some (e, b1, s1)"
      using assms(2) False by (auto simp: Write_def split: option.splits)
    from flushToStorage_fields [OF f] have k: "size_buf b1 = size_buf b" "offset b1 = offset b"
      "memoryBuffer b1 = memoryBuffer b" "threshold b1 = threshold b"
      "e \<noteq> None \<longrightarrow> usingStorage b1 = usingStorage b"
      by simp_all
    have u: "e = None \<Longrightarrow> usingStorage b1"
      using f True
      by (auto simp: flushToStorage_def openWriteStream_def Let_def
          split: option.splits prod.splits sum.splits if_splits)
    show ?thesis
    proof (cases e)
      case (Some err)
      with assms f True False k show ?thesis
        by (auto simp: Write_def buffer_inv_def)
    next
      case None
      with u have ub: "usingStorage b1" by simp
      from assms(2) f True False None ub
      have "offset b' = offset b1 \<and> threshold b' = threshold b1 \<and> usingStorage b'"
        by (auto simp: Write_def openWriteStream_def
            split: option.splits prod.splits sum.splits if_splits)
      with assms(1) k show ?thesis by (simp add: buffer_inv_def)
    qed
  next
    case nf: False
    show ?thesis
    proof (cases "usingStorage b")
      case True
      from assms(2) nf False True
      have "offset b' = offset b \<and> threshold b' = threshold b \<and> usingStorage b'"
        by (auto simp: Write_def openWriteStream_def
            split: option.splits prod.splits sum.splits if_splits)
      with assms(1) show ?thesis by (simp add: buffer_inv_def)
    next
      case False
      with assms nf \<open>data \<noteq> []\<close> show ?thesis
        by (auto simp: Write_def buffer_inv_def)
    qed
  qed
qed

lemma Read_inv:
  assumes "buffer_inv b" and "Read env len_data (b, s) = Some (r, b', s')"
  shows "buffer_inv b'"
  using assms
  by (auto simp: Read_def buffer_inv_def Let_def openReadStream_def
      split: option.splits prod.splits sum.splits if_splits)

lemma Read_threshold:
  assumes "Read env len_data (b, s) = Some (r, b', s')"
  shows "threshold b' = threshold b"
  using assms
  by (auto simp: Read_def Let_def openReadStream_def
      split: option.splits prod.splits sum.splits if_splits)

lemma Reset_inv:
  assumes "0 < threshold b" and "Reset env (b, s) = (b', s')"
  shows "buffer_inv b' \<and> \<not> usingStorage b' \<and> memoryBuffer b' = [] \<and> threshold b' = threshold b"
  using assms
  by (auto simp: Reset_def buffer_inv_def split: option.splits prod.splits)

lemma Close_inv:
  assumes "buffer_inv b" and "Close env (b, s) = (e, b', s')"
  shows "buffer_inv b'"
  using assms
  by (auto simp: Close_def buffer_inv_def split: option.splits prod.splits)

lemma Truncate_inv:
  assumes "buffer_inv b" and "Truncate env n (b, s) = Some (b', s')"
  shows "buffer_inv b'"
proof (cases "n = 0")
  case True
  with assms obtain "Reset env (b, s) = (b', s')" "0 < threshold b"
    by (auto simp: Truncate_def buffer_inv_def split: if_splits)
  with Reset_inv [of b env s b' s'] show ?thesis by simp
next
  case False
  let ?b0 = "b\<lparr>offset := 0\<rparr>"
  obtain b1 s1 where c: "(case readStream ?b0 of
                      Some rs \<Rightarrow> (?b0\<lparr>readStream := None\<rparr>, snd (readStream_Close env rs s))
                    | None \<Rightarrow> (?b0, s)) = (b1, s1)"
    by fastforce
  then have t1: "threshold b1 = threshold b"
    by (auto split: option.splits)
  from assms(2) False c obtain bs err b2 s2 r b4 s4
    where rd: "Read env (nat n) (b1, s1) = Some ((bs, err), b2, s2)"
      and wr: "Write env bs (Reset env (b2, s2)) = Some (r, b4, s4)"
      and b': "b' = (if offset b < int (length bs) then b4\<lparr>offset := offset b\<rparr> else b4)"
    by (auto simp: Truncate_def Let_def split: if_splits option.splits prod.splits)
  obtain b3 s3 where rs: "Reset env (b2, s2) = (b3, s3)" by fastforce
  from Read_threshold [OF rd] t1 assms(1) have "0 < threshold b2"
    by (simp add: buffer_inv_def)
  from Reset_inv [OF this rs] have i3: "buffer_inv b3"
    by simp
  from wr rs have wr3: "Write env bs (b3, s3) = Some (r, b4, s4)" by simp
  from Write_inv [OF i3 wr3] have i4: "buffer_inv b4" .
  from b' i4 assms(1) show ?thesis
    by (auto simp: buffer_inv_def)
qed

lemma step_inv:
  assumes "buffer_inv b" and "step env x (b, s) = Some (r, b', s')"
  shows "buffer_inv b'"
proof (cases x)
  case (OpWrite p)
  with assms show ?thesis
    by (auto split: option.splits dest: Write_inv)
next
  case (OpRead k)
  with assms show ?thesis
    by (auto split: option.splits dest: Read_inv)
next
  case (OpTruncate n)
  with assms show ?thesis
    by (auto split: option.splits dest: Truncate_inv)
next
  case OpReset
  with assms Reset_inv [of b env s b' s'] show ?thesis
    by (auto simp: buffer_inv_def)
next
  case OpClose
  with assms show ?thesis
    by (auto split: prod.splits dest: Close_inv)
qed

lemma run_inv:
  assumes "buffer_inv b" and "run env xs (b, s) = Some (rs, b', s')"
  shows "buffer_inv b'"
  using assms
proof (induction xs arbitrary: b s rs)
  case Nil
  then show ?case by simp
next
  case (Cons x xs)
  from Cons.prems(2) obtain r b1 s1 rs1 where
    st: "step env x (b, s) = Some (r, b1, s1)" and
    rn: "run env xs (b1, s1) = Some (rs1, b', s')"
    by (auto split: option.splits)
  from step_inv [OF Cons.prems(1) st] have "buffer_inv b1" .
  from Cons.IH [OF this rn] show ?case .
qed

subsection \<open>The pipeline\<close>

text \<open>
  C1 (the code at a failing input). The pipeline \<open>[frame, cipher]\<close> holds two lossless
  transforms. With threshold 1 the bytes 1, 2, 3, written in two calls, spill, and reading
  to the end of the stream returns 0, 1, 2: the write stream encodes with \<open>cipher\<close> and
  then with \<open>frame\<close>, and the read stream decodes with \<open>cipher\<close> first.
\<close>

theorem pipeline_round_trip_fails:
  "lossless frame \<and> lossless cipher \<and>
   outcomes
     (run mock_env [OpWrite [1, 2], OpWrite [3], OpRead 2, OpRead 2, OpRead 2]
        (New fresh_backend [WithThreshold 1, WithMiddleware [frame, cipher]], io0 world0)) =
     Some [Written 2 None, Written 1 None, Got [0, 1] None, Got [2] (Some EOF), Got [] (Some EOF)]"
  by (simp add: frame_lossless cipher_lossless) (simp add: buffer_defs mock_defs run_defs Let_def)

text \<open>
  The claim C2 as the specification words it fails for the pipeline \<open>[frame, cipher]\<close>:
  the write stream the buffer opens is \<open>cipher.Writer(frame.Writer(store))\<close> and the read
  stream \<open>frame.Reader(cipher.Reader(store))\<close>, each the reverse of the nesting claimed.
\<close>

theorem stream_nesting_counterexample:
  "map_option (map_option writer_of \<circ> writeStream)
     (final_buffer
        (run mock_env [OpWrite [1, 2, 3]]
           (New fresh_backend [WithThreshold 1, WithMiddleware [frame, cipher]], io0 world0))) =
     Some (Some (MwWriter cipher (MwWriter frame (StoreWriter 0)))) \<and>
   MwWriter cipher (MwWriter frame (StoreWriter 0)) \<noteq> spec_write_nesting [frame, cipher] (StoreWriter 0) \<and>
   map_option (map_option reader_of \<circ> readStream)
     (final_buffer
        (run mock_env [OpWrite [1, 2, 3], OpRead 1]
           (New fresh_backend [WithThreshold 1, WithMiddleware [frame, cipher]], io0 world0))) =
     Some (Some (MwReader frame (MwReader cipher (StoreReader 0)))) \<and>
   MwReader frame (MwReader cipher (StoreReader 0)) \<noteq> spec_read_nesting [frame, cipher] (StoreReader 0)"
proof -
  have 1: "frame \<noteq> cipher" by (rule frame_neq_cipher)
  then have 2: "cipher \<noteq> frame" by (rule not_sym)
  show ?thesis
    using 1 2
    by (simp add: spec_write_nesting_def spec_read_nesting_def)
       (simp add: buffer_defs mock_defs run_defs Let_def)
qed

text \<open>
  C2 (as amended). For a buffer with pipeline \<open>[T1, ..., Tn]\<close> the read stream opened
  over the store is \<open>T1.wrap_reader(T2.wrap_reader(... Tn.wrap_reader(store_reader)))\<close>:
  \<open>Tn\<close>'s reader is next to the store and \<open>T1\<close>'s reader gives the caller's bytes. With a
  pipeline of at most one transform the write stream is the nesting of the specification,
  \<open>T1.wrap_writer(store_writer)\<close>, and with an empty pipeline both streams are exactly the
  store streams.
\<close>

theorem stream_nesting:
  assumes "storageBackend b = Some h"
  shows "(readStream b = None \<and> backendOpen env h (world s) = (Inr i, w1) \<longrightarrow>
            (\<exists>b'. openReadStream env (b, s) =
                     Some (None, b', \<lparr>world = w1, calls = calls s @ [CallOpen h]\<rparr>) \<and>
                  map_option reader_of (readStream b') =
                     Some (foldr MwReader (middlewares b) (StoreReader i)) \<and>
                  (middlewares b = [] \<longrightarrow> readStream b' = Some (ReadCloser (StoreReader i))))) \<and>
         (writeStream b = None \<and> backendCreate env h (world s) = (Inr j, w2) \<and>
          length (middlewares b) \<le> 1 \<longrightarrow>
            (\<exists>b'. openWriteStream env (b, s) =
                     Some (None, b', \<lparr>world = w2, calls = calls s @ [CallCreate h]\<rparr>) \<and>
                  map_option writer_of (writeStream b') =
                     Some (spec_write_nesting (middlewares b) (StoreWriter j)) \<and>
                  (middlewares b = [] \<longrightarrow> writeStream b' = Some (WriteCloser (StoreWriter j)))))"
proof (intro conjI impI)
  assume a: "readStream b = None \<and> backendOpen env h (world s) = (Inr i, w1)"
  then have "openReadStream env (b, s) =
           Some (None,
                 b\<lparr>readStream := Some (as_ReadCloser env (wrap_readers (middlewares b) (StoreReader i))
                                         (StoreReader i))\<rparr>,
                 \<lparr>world = w1, calls = calls s @ [CallOpen h]\<rparr>)"
    using assms by (simp add: openReadStream_opens)
  then show "\<exists>b'. openReadStream env (b, s) =
                     Some (None, b', \<lparr>world = w1, calls = calls s @ [CallOpen h]\<rparr>) \<and>
                  map_option reader_of (readStream b') =
                     Some (foldr MwReader (middlewares b) (StoreReader i)) \<and>
                  (middlewares b = [] \<longrightarrow> readStream b' = Some (ReadCloser (StoreReader i)))"
    by (auto simp: wrap_readers_foldr)
next
  assume a: "writeStream b = None \<and> backendCreate env h (world s) = (Inr j, w2) \<and>
          length (middlewares b) \<le> 1"
  then have "openWriteStream env (b, s) =
           Some (None,
                 b\<lparr>writeStream := Some (as_WriteCloser env (wrap_writers (middlewares b) (StoreWriter j))
                                          (StoreWriter j))\<rparr>,
                 \<lparr>world = w2, calls = calls s @ [CallCreate h]\<rparr>)"
    using assms by (simp add: openWriteStream_opens)
  with a show "\<exists>b'. openWriteStream env (b, s) =
                     Some (None, b', \<lparr>world = w2, calls = calls s @ [CallCreate h]\<rparr>) \<and>
                  map_option writer_of (writeStream b') =
                     Some (spec_write_nesting (middlewares b) (StoreWriter j)) \<and>
                  (middlewares b = [] \<longrightarrow> writeStream b' = Some (WriteCloser (StoreWriter j)))"
    by (auto simp: wrap_writers_short spec_write_nesting_def)
qed

theorem stream_nesting_witness:
  "map_option (map_option reader_of \<circ> readStream \<circ> fst \<circ> snd)
     (openReadStream mock_env
        ((New fresh_backend [WithThreshold 1, WithMiddleware [frame, cipher]])\<lparr>storageBackend := Some 0\<rparr>,
         io0 world0)) =
     Some (Some (MwReader frame (MwReader cipher (StoreReader 0)))) \<and>
   map_option (map_option writer_of \<circ> writeStream \<circ> fst \<circ> snd)
     (openWriteStream mock_env
        ((New fresh_backend [WithThreshold 1, WithMiddleware [frame]])\<lparr>storageBackend := Some 0\<rparr>,
         io0 world0)) =
     Some (Some (spec_write_nesting [frame] (StoreWriter 0)))"
proof -
  let ?b2 = "(New fresh_backend [WithThreshold 1, WithMiddleware [frame, cipher]])\<lparr>storageBackend := Some 0\<rparr>"
  let ?b1 = "(New fresh_backend [WithThreshold 1, WithMiddleware [frame]])\<lparr>storageBackend := Some 0\<rparr>"
  let ?s = "io0 world0 :: (codec, store_world) io"
  have m2: "middlewares ?b2 = [frame, cipher]" and m1: "middlewares ?b1 = [frame]"
    by (simp_all add: New_def)
  have h2: "storageBackend ?b2 = Some 0" and h1: "storageBackend ?b1 = Some 0"
    by simp_all
  have o: "readStream ?b2 = None \<and>
           backendOpen mock_env 0 (world ?s) = (Inr 0, snd (mock_Open 0 world0))"
    by (simp add: New_def io0_def mock_env_def mock_Open_def)
  have c: "writeStream ?b1 = None \<and>
           backendCreate mock_env 0 (world ?s) = (Inr 0, snd (mock_Create 0 world0)) \<and>
           length (middlewares ?b1) \<le> 1"
    by (simp add: New_def io0_def mock_env_def mock_Create_def world0_def)
  from o stream_nesting [where b = ?b2 and h = 0 and env = mock_env and s = ?s and i = 0
      and ?w1.0 = "snd (mock_Open 0 world0)", OF h2]
  obtain b' where "openReadStream mock_env (?b2, ?s) =
        Some (None, b', \<lparr>world = snd (mock_Open 0 world0), calls = calls ?s @ [CallOpen 0]\<rparr>)"
    and "map_option reader_of (readStream b') = Some (foldr MwReader (middlewares ?b2) (StoreReader 0))"
    by blast
  then have r: "map_option (map_option reader_of \<circ> readStream \<circ> fst \<circ> snd)
             (openReadStream mock_env (?b2, ?s)) =
           Some (Some (MwReader frame (MwReader cipher (StoreReader 0))))"
    by (simp add: m2)
  from c stream_nesting [where b = ?b1 and h = 0 and env = mock_env and s = ?s and j = 0
      and ?w2.0 = "snd (mock_Create 0 world0)", OF h1]
  obtain b'' where "openWriteStream mock_env (?b1, ?s) =
        Some (None, b'', \<lparr>world = snd (mock_Create 0 world0), calls = calls ?s @ [CallCreate 0]\<rparr>)"
    and "map_option writer_of (writeStream b'') = Some (spec_write_nesting (middlewares ?b1) (StoreWriter 0))"
    by blast
  then have w: "map_option (map_option writer_of \<circ> writeStream \<circ> fst \<circ> snd)
             (openWriteStream mock_env (?b1, ?s)) =
           Some (Some (spec_write_nesting [frame] (StoreWriter 0)))"
    by (simp add: m1)
  from r w show ?thesis by simp
qed

subsection \<open>The spill\<close>

text \<open>
  The claim C3 fails where a failed spill has left its write stream behind. With threshold 2
  and a store whose first write fails: the bytes 1, 2 stay in memory; the append of 3 starts
  the spill, which fails when it writes the memory content, and the buffer is still in memory
  mode; the next append of 3 spills, and this time no write stream is opened: the memory
  content and the new byte go to the stream of the first backend while the buffer holds the
  second one.
\<close>

theorem spill_transition_counterexample:
  "outcomes
     (run mock_env [OpWrite [1, 2], OpWrite [3]]
        (New fresh_backend [WithThreshold 2], io0 (world0\<lparr>faulty_writes := 1\<rparr>))) =
     Some [Written 2 None,
           Written 0 (Some (Wrap (Wrap (Failure ''simulated write failure'')
                                    ''failed to write memory data to storage'')
                              ''failed to flush to storage''))] \<and>
   map_option usingStorage
     (final_buffer
        (run mock_env [OpWrite [1, 2], OpWrite [3]]
           (New fresh_backend [WithThreshold 2], io0 (world0\<lparr>faulty_writes := 1\<rparr>)))) =
     Some False \<and>
   final_calls
     (run mock_env [OpWrite [1, 2], OpWrite [3]]
        (New fresh_backend [WithThreshold 2], io0 (world0\<lparr>faulty_writes := 1\<rparr>))) =
     Some [CallProvider, CallCreate 0, CallWrite (StoreWriter 0) [1, 2]] \<and>
   map_option last
     (outcomes
        (run mock_env [OpWrite [1, 2], OpWrite [3], OpWrite [3]]
           (New fresh_backend [WithThreshold 2], io0 (world0\<lparr>faulty_writes := 1\<rparr>)))) =
     Some (Written 1 None) \<and>
   map_option usingStorage
     (final_buffer
        (run mock_env [OpWrite [1, 2], OpWrite [3], OpWrite [3]]
           (New fresh_backend [WithThreshold 2], io0 (world0\<lparr>faulty_writes := 1\<rparr>)))) =
     Some True \<and>
   map_option storageBackend
     (final_buffer
        (run mock_env [OpWrite [1, 2], OpWrite [3], OpWrite [3]]
           (New fresh_backend [WithThreshold 2], io0 (world0\<lparr>faulty_writes := 1\<rparr>)))) =
     Some (Some 1) \<and>
   map_option writeStream
     (final_buffer
        (run mock_env [OpWrite [1, 2], OpWrite [3], OpWrite [3]]
           (New fresh_backend [WithThreshold 2], io0 (world0\<lparr>faulty_writes := 1\<rparr>)))) =
     Some (Some (WriteCloser (StoreWriter 0))) \<and>
   final_calls
     (run mock_env [OpWrite [1, 2], OpWrite [3], OpWrite [3]]
        (New fresh_backend [WithThreshold 2], io0 (world0\<lparr>faulty_writes := 1\<rparr>))) =
     Some [CallProvider, CallCreate 0, CallWrite (StoreWriter 0) [1, 2],
           CallProvider, CallWrite (StoreWriter 0) [1, 2], CallWrite (StoreWriter 0) [3]]"
  by (simp add: buffer_defs mock_defs run_defs Let_def)

text \<open>
  C3 (as amended). An append on a buffer in memory mode that holds no write stream left
  by an earlier failed spill: when the memory length plus the incoming length is at most
  the threshold, the bytes are appended to the memory region, the buffer stays in memory
  mode and no collaborator is called; when the sum is strictly greater than the threshold
  (and no step fails), the storage provider is called, then \<^verbatim>\<open>Create\<close> on its backend,
  the stream is wrapped by the pipeline, the whole memory content is written through that
  stream (when there is any), the mode becomes spill, and only then are the triggering
  bytes written to the same stream; the size grows by the count the stream returns.
\<close>

theorem spill_transition:
  assumes "\<not> usingStorage b" "writeStream b = None"
    and "int (length (memoryBuffer b)) \<le> threshold b"
  shows "(int (length (memoryBuffer b)) + int (length data) \<le> threshold b \<longrightarrow>
            Write env data (b, s) =
              Some ((int (length data), None),
                    b\<lparr>memoryBuffer := memoryBuffer b @ data,
                      size_buf := size_buf b + int (length data)\<rparr>, s)) \<and>
         (int (length (memoryBuffer b)) + int (length data) > threshold b \<and>
          storageProvider b (world s) = (h, w1) \<and>
          backendCreate env h w1 = (Inr i, w2) \<and>
          (if memoryBuffer b = [] then w3 = w2
           else \<exists>n0. writerWrite env (wrap_writers (middlewares b) (StoreWriter i)) (memoryBuffer b) w2
                        = ((n0, None), w3)) \<and>
          writerWrite env (wrap_writers (middlewares b) (StoreWriter i)) data w3 = ((n, err), w4) \<longrightarrow>
            Write env data (b, s) =
              Some ((n, err),
                    b\<lparr>storageBackend := Some h,
                      writeStream := Some (as_WriteCloser env (wrap_writers (middlewares b) (StoreWriter i))
                                             (StoreWriter i)),
                      usingStorage := True,
                      size_buf := (if err = None then size_buf b + n else size_buf b)\<rparr>,
                    \<lparr>world = w4,
                     calls = calls s @ [CallProvider, CallCreate h] @
                             (if memoryBuffer b = [] then []
                              else [CallWrite (wrap_writers (middlewares b) (StoreWriter i)) (memoryBuffer b)]) @
                             [CallWrite (wrap_writers (middlewares b) (StoreWriter i)) data]\<rparr>))"
proof (intro conjI impI)
  assume "int (length (memoryBuffer b)) + int (length data) \<le> threshold b"
  with assms(1) show "Write env data (b, s) =
              Some ((int (length data), None),
                    b\<lparr>memoryBuffer := memoryBuffer b @ data,
                      size_buf := size_buf b + int (length data)\<rparr>, s)"
    by (simp add: Write_def)
next
  let ?W = "wrap_writers (middlewares b) (StoreWriter i)"
  assume a: "int (length (memoryBuffer b)) + int (length data) > threshold b \<and>
          storageProvider b (world s) = (h, w1) \<and>
          backendCreate env h w1 = (Inr i, w2) \<and>
          (if memoryBuffer b = [] then w3 = w2
           else \<exists>n0. writerWrite env ?W (memoryBuffer b) w2 = ((n0, None), w3)) \<and>
          writerWrite env ?W data w3 = ((n, err), w4)"
  then have ne: "data \<noteq> []" using assms(3) by auto
  from a have a0: "int (length (memoryBuffer b)) + int (length data) > threshold b"
    and a1: "storageProvider b (world s) = (h, w1)"
    and a2: "backendCreate env h w1 = (Inr i, w2)"
    and a4: "if memoryBuffer b = [] then w3 = w2
             else \<exists>n0. writerWrite env ?W (memoryBuffer b) w2 = ((n0, None), w3)"
    and a5: "writerWrite env ?W data w3 = ((n, err), w4)"
    by blast+
  have f: "flushToStorage env (b, s) =
           Some (None,
                 b\<lparr>storageBackend := Some h,
                   writeStream := Some (as_WriteCloser env ?W (StoreWriter i)),
                   usingStorage := True\<rparr>,
                 \<lparr>world = w3,
                  calls = calls s @ [CallProvider, CallCreate h] @
                          (if memoryBuffer b = [] then [] else [CallWrite ?W (memoryBuffer b)])\<rparr>)"
    by (rule flushToStorage_succeeds [OF assms(1) assms(2) a1 a2 a4])
  show "Write env data (b, s) =
              Some ((n, err),
                    b\<lparr>storageBackend := Some h,
                      writeStream := Some (as_WriteCloser env ?W (StoreWriter i)),
                      usingStorage := True,
                      size_buf := (if err = None then size_buf b + n else size_buf b)\<rparr>,
                    \<lparr>world = w4,
                     calls = calls s @ [CallProvider, CallCreate h] @
                             (if memoryBuffer b = [] then [] else [CallWrite ?W (memoryBuffer b)]) @
                             [CallWrite ?W data]\<rparr>)"
    using a0 ne assms(1) f a5
    by (simp add: Write_def writeStream_Write_writer_of call_write_def)
qed

theorem spill_transition_witness:
  "Write mock_env [3]
     ((New fresh_backend [WithThreshold 5])\<lparr>memoryBuffer := [1, 2], size_buf := 2\<rparr>, io0 world0) =
     Some ((1, None),
           (New fresh_backend [WithThreshold 5])\<lparr>memoryBuffer := [1, 2, 3], size_buf := 3\<rparr>,
           io0 world0) \<and>
   Write mock_env [3]
     ((New fresh_backend [WithThreshold 2])\<lparr>memoryBuffer := [1, 2], size_buf := 2\<rparr>, io0 world0) =
     Some ((1, None),
           (New fresh_backend [WithThreshold 2])
             \<lparr>memoryBuffer := [1, 2], size_buf := 3, storageBackend := Some 0,
              writeStream := Some (WriteCloser (StoreWriter 0)), usingStorage := True\<rparr>,
           \<lparr>world = snd (mock_Write (StoreWriter 0) [3]
                           (snd (mock_Write (StoreWriter 0) [1, 2]
                              (snd (mock_Create 0 (snd (fresh_backend world0))))))),
            calls = [CallProvider, CallCreate 0, CallWrite (StoreWriter 0) [1, 2],
                     CallWrite (StoreWriter 0) [3]]\<rparr>)"
proof -
  let ?b5 = "(New fresh_backend [WithThreshold 5])\<lparr>memoryBuffer := [1, 2], size_buf := 2\<rparr>
               :: (codec, store_world) hybridBuffer"
  let ?b2 = "(New fresh_backend [WithThreshold 2])\<lparr>memoryBuffer := [1, 2], size_buf := 2\<rparr>
               :: (codec, store_world) hybridBuffer"
  let ?s = "io0 world0 :: (codec, store_world) io"
  let ?w1 = "snd (fresh_backend world0)"
  let ?w2 = "snd (mock_Create 0 ?w1)"
  let ?w3 = "snd (mock_Write (StoreWriter 0) [1, 2] ?w2)"
  let ?w4 = "snd (mock_Write (StoreWriter 0) [3] ?w3)"
  have p5: "\<not> usingStorage ?b5" "writeStream ?b5 = None"
    "int (length (memoryBuffer ?b5)) \<le> threshold ?b5"
    by (simp_all add: New_def)
  have p2: "\<not> usingStorage ?b2" "writeStream ?b2 = None"
    "int (length (memoryBuffer ?b2)) \<le> threshold ?b2"
    by (simp_all add: New_def)
  have c5: "int (length (memoryBuffer ?b5)) + int (length [3::byte]) \<le> threshold ?b5"
    by (simp add: New_def)
  have c2: "int (length (memoryBuffer ?b2)) + int (length [3::byte]) > threshold ?b2 \<and>
          storageProvider ?b2 (world ?s) = (0, ?w1) \<and>
          backendCreate mock_env 0 ?w1 = (Inr 0, ?w2) \<and>
          (if memoryBuffer ?b2 = [] then ?w3 = ?w2
           else \<exists>n0. writerWrite mock_env (wrap_writers (middlewares ?b2) (StoreWriter 0)) (memoryBuffer ?b2) ?w2
                        = ((n0, None), ?w3)) \<and>
          writerWrite mock_env (wrap_writers (middlewares ?b2) (StoreWriter 0)) [3] ?w3 = ((1, None), ?w4)"
    by (simp add: New_def io0_def mock_env_def mock_Create_def mock_Write_def fresh_backend_def
        world0_def wrap_writers_def accept_bytes_def store_put_def Let_def)
  from c5 spill_transition [where b = ?b5 and data = "[3]" and env = mock_env and s = ?s, OF p5]
  have stay: "Write mock_env [3] (?b5, ?s) =
     Some ((int (length [3::byte]), None),
           ?b5\<lparr>memoryBuffer := memoryBuffer ?b5 @ [3],
                size_buf := size_buf ?b5 + int (length [3::byte])\<rparr>, ?s)"
    by blast
  from c2 spill_transition [where b = ?b2 and data = "[3]" and env = mock_env and s = ?s
      and h = 0 and ?w1.0 = ?w1 and i = 0 and ?w2.0 = ?w2 and ?w3.0 = ?w3 and n = 1
      and err = None and ?w4.0 = ?w4, OF p2]
  have spill: "Write mock_env [3] (?b2, ?s) =
              Some ((1, None),
                    ?b2\<lparr>storageBackend := Some 0,
                      writeStream := Some (as_WriteCloser mock_env (wrap_writers (middlewares ?b2) (StoreWriter 0))
                                             (StoreWriter 0)),
                      usingStorage := True,
                      size_buf := (if (None :: error option) = None then size_buf ?b2 + 1 else size_buf ?b2)\<rparr>,
                    \<lparr>world = ?w4,
                     calls = calls ?s @ [CallProvider, CallCreate 0] @
                             (if memoryBuffer ?b2 = [] then []
                              else [CallWrite (wrap_writers (middlewares ?b2) (StoreWriter 0)) (memoryBuffer ?b2)]) @
                             [CallWrite (wrap_writers (middlewares ?b2) (StoreWriter 0)) [3]]\<rparr>)"
    by blast
  from stay have stay': "Write mock_env [3] (?b5, ?s) =
     Some ((1, None),
           (New fresh_backend [WithThreshold 5])\<lparr>memoryBuffer := [1, 2, 3], size_buf := 3\<rparr>, ?s)"
    by (simp add: New_def)
  from spill have spill': "Write mock_env [3] (?b2, ?s) =
     Some ((1, None),
           (New fresh_backend [WithThreshold 2])
             \<lparr>memoryBuffer := [1, 2], size_buf := 3, storageBackend := Some 0,
              writeStream := Some (WriteCloser (StoreWriter 0)), usingStorage := True\<rparr>,
           \<lparr>world = ?w4,
            calls = [CallProvider, CallCreate 0, CallWrite (StoreWriter 0) [1, 2],
                     CallWrite (StoreWriter 0) [3]]\<rparr>)"
    by (simp add: New_def io0_def wrap_writers_def)
  from stay' spill' show ?thesis by simp
qed

text \<open>
  What the failing call itself leaves. If the spill fails (\<^verbatim>\<open>flushToStorage\<close> returns
  an error, because the store's stream cannot be created or because writing the memory
  content fails), the triggering append returns that error, wrapped, with the count 0, and
  the buffer is still in memory mode with its size, its read position, its threshold and
  its memory content as before the call. Nothing is said here of the backend and of the
  write stream, which the failed spill does not put back.
\<close>

theorem failed_transition:
  assumes "\<not> usingStorage b" "data \<noteq> []"
    and "int (length (memoryBuffer b)) + int (length data) > threshold b"
    and "flushToStorage env (b, s) = Some (Some e, b1, s1)"
  shows "Write env data (b, s) = Some ((0, Some (Wrap e ''failed to flush to storage'')), b1, s1) \<and>
         \<not> usingStorage b1 \<and> size_buf b1 = size_buf b \<and> offset b1 = offset b \<and>
         memoryBuffer b1 = memoryBuffer b \<and> threshold b1 = threshold b \<and> Len b1 = Len b"
proof -
  have w: "Write env data (b, s) = Some ((0, Some (Wrap e ''failed to flush to storage'')), b1, s1)"
    using assms by (simp add: Write_def)
  have "\<not> usingStorage b1 \<and> size_buf b1 = size_buf b \<and> offset b1 = offset b \<and>
         memoryBuffer b1 = memoryBuffer b \<and> threshold b1 = threshold b"
    using assms(1,4)
    by (auto simp: flushToStorage_def openWriteStream_def Let_def
        split: prod.splits option.splits sum.splits if_splits)
  with w show ?thesis by (simp add: Len_def)
qed

theorem failed_transition_witness:
  "map_option fst
     (Write mock_env [3]
        ((New fresh_backend [WithThreshold 2])\<lparr>memoryBuffer := [1, 2], size_buf := 2\<rparr>,
         io0 (world0\<lparr>create_fault := True\<rparr>))) =
     Some (0, Some (Wrap (Wrap (Failure ''create failed'') ''failed to create storage write stream'')
                      ''failed to flush to storage'')) \<and>
   map_option ((\<lambda>b. (usingStorage b, size_buf b, offset b, memoryBuffer b)) \<circ> fst \<circ> snd)
     (Write mock_env [3]
        ((New fresh_backend [WithThreshold 2])\<lparr>memoryBuffer := [1, 2], size_buf := 2\<rparr>,
         io0 (world0\<lparr>create_fault := True\<rparr>))) =
     Some (False, 2, 0, [1, 2]) \<and>
   map_option fst
     (Write mock_env [3]
        ((New fresh_backend [WithThreshold 2])\<lparr>memoryBuffer := [1, 2], size_buf := 2\<rparr>,
         io0 (world0\<lparr>faulty_writes := 1\<rparr>))) =
     Some (0, Some (Wrap (Wrap (Failure ''simulated write failure'')
                            ''failed to write memory data to storage'')
                      ''failed to flush to storage'')) \<and>
   map_option ((\<lambda>b. (usingStorage b, size_buf b, offset b, memoryBuffer b)) \<circ> fst \<circ> snd)
     (Write mock_env [3]
        ((New fresh_backend [WithThreshold 2])\<lparr>memoryBuffer := [1, 2], size_buf := 2\<rparr>,
         io0 (world0\<lparr>faulty_writes := 1\<rparr>))) =
     Some (False, 2, 0, [1, 2])"
proof -
  let ?b = "(New fresh_backend [WithThreshold 2])\<lparr>memoryBuffer := [1, 2], size_buf := 2\<rparr>
              :: (codec, store_world) hybridBuffer"
  let ?sc = "io0 (world0\<lparr>create_fault := True\<rparr>) :: (codec, store_world) io"
  let ?sw = "io0 (world0\<lparr>faulty_writes := 1\<rparr>) :: (codec, store_world) io"
  have m: "\<not> usingStorage ?b" "[3::byte] \<noteq> []"
    "int (length (memoryBuffer ?b)) + int (length [3::byte]) > threshold ?b"
    by (simp_all add: New_def)
  have v: "size_buf ?b = 2" "offset ?b = 0" "memoryBuffer ?b = [1, 2]"
    by (simp_all add: New_def)
  obtain b1 s1 where fc: "flushToStorage mock_env (?b, ?sc) =
      Some (Some (Wrap (Failure ''create failed'') ''failed to create storage write stream''), b1, s1)"
    by (simp add: buffer_defs mock_defs)
  obtain b2 s2 where fw: "flushToStorage mock_env (?b, ?sw) =
      Some (Some (Wrap (Failure ''simulated write failure'') ''failed to write memory data to storage''),
            b2, s2)"
    by (simp add: buffer_defs mock_defs Let_def)
  from failed_transition [OF m fc] failed_transition [OF m fw] v show ?thesis
    by simp
qed

text \<open>
  C7 (the code at a failing input). With threshold 2 and a store whose first write fails:
  the bytes 1, 2 stay in memory; the append of 3 starts the spill, which fails when it
  writes the memory content, and the call returns the error and the count 0 with the
  buffer in memory mode. But the failed spill leaves its write stream and its backend in
  the buffer. The caller retries the append of 3: the spill takes a second backend from
  the provider, finds the write stream "already open" and writes the memory content and
  the new byte to the stream of the first backend. The buffer now has size 3, and the
  next read opens the second backend, which holds nothing, and returns end-of-stream with
  no byte: the three bytes are lost, where the claim says the caller can keep using the
  buffer and retry.
\<close>

theorem failed_transition_retry_loses_data:
  "outcomes
     (run mock_env [OpWrite [1, 2], OpWrite [3]]
        (New fresh_backend [WithThreshold 2], io0 (world0\<lparr>faulty_writes := 1\<rparr>))) =
     Some [Written 2 None,
           Written 0 (Some (Wrap (Wrap (Failure ''simulated write failure'')
                                    ''failed to write memory data to storage'')
                              ''failed to flush to storage''))] \<and>
   map_option usingStorage
     (final_buffer
        (run mock_env [OpWrite [1, 2], OpWrite [3]]
           (New fresh_backend [WithThreshold 2], io0 (world0\<lparr>faulty_writes := 1\<rparr>)))) =
     Some False \<and>
   map_option writeStream
     (final_buffer
        (run mock_env [OpWrite [1, 2], OpWrite [3]]
           (New fresh_backend [WithThreshold 2], io0 (world0\<lparr>faulty_writes := 1\<rparr>)))) =
     Some (Some (WriteCloser (StoreWriter 0))) \<and>
   map_option storageBackend
     (final_buffer
        (run mock_env [OpWrite [1, 2], OpWrite [3]]
           (New fresh_backend [WithThreshold 2], io0 (world0\<lparr>faulty_writes := 1\<rparr>)))) =
     Some (Some 0) \<and>
   outcomes
     (run mock_env [OpWrite [1, 2], OpWrite [3], OpWrite [3], OpRead 3]
        (New fresh_backend [WithThreshold 2], io0 (world0\<lparr>faulty_writes := 1\<rparr>))) =
     Some [Written 2 None,
           Written 0 (Some (Wrap (Wrap (Failure ''simulated write failure'')
                                    ''failed to write memory data to storage'')
                              ''failed to flush to storage'')),
           Written 1 None,
           Got [] (Some EOF)] \<and>
   map_option size_buf
     (final_buffer
        (run mock_env [OpWrite [1, 2], OpWrite [3], OpWrite [3], OpRead 3]
           (New fresh_backend [WithThreshold 2], io0 (world0\<lparr>faulty_writes := 1\<rparr>)))) =
     Some 3 \<and>
   map_option offset
     (final_buffer
        (run mock_env [OpWrite [1, 2], OpWrite [3], OpWrite [3], OpRead 3]
           (New fresh_backend [WithThreshold 2], io0 (world0\<lparr>faulty_writes := 1\<rparr>)))) =
     Some 0 \<and>
   map_option storageBackend
     (final_buffer
        (run mock_env [OpWrite [1, 2], OpWrite [3], OpWrite [3], OpRead 3]
           (New fresh_backend [WithThreshold 2], io0 (world0\<lparr>faulty_writes := 1\<rparr>)))) =
     Some (Some 1) \<and>
   final_calls
     (run mock_env [OpWrite [1, 2], OpWrite [3], OpWrite [3], OpRead 3]
        (New fresh_backend [WithThreshold 2], io0 (world0\<lparr>faulty_writes := 1\<rparr>))) =
     Some [CallProvider, CallCreate 0, CallWrite (StoreWriter 0) [1, 2],
           CallProvider, CallWrite (StoreWriter 0) [1, 2], CallWrite (StoreWriter 0) [3],
           CallCloseWriter (StoreWriter 0), CallOpen 1, CallRead (StoreReader 1) 3]"
  by (simp add: buffer_defs mock_defs run_defs Let_def)

text \<open>
  The claim C8 fails when the stream acknowledges bytes and reports an error: with
  threshold 1 and a store whose first write fails after two bytes, the append of 1, 2, 3
  spills and returns the count 2 with the error, and the size is still 0.
\<close>

theorem spill_write_error_counterexample:
  "outcomes
     (run mock_env [OpWrite [1, 2, 3]]
        (New fresh_backend [WithThreshold 1], io0 (world0\<lparr>faulty_writes := 1, fault_ack := 2\<rparr>))) =
     Some [Written 2 (Some (Failure ''simulated write failure''))] \<and>
   map_option usingStorage
     (final_buffer
        (run mock_env [OpWrite [1, 2, 3]]
           (New fresh_backend [WithThreshold 1], io0 (world0\<lparr>faulty_writes := 1, fault_ack := 2\<rparr>)))) =
     Some True \<and>
   map_option size_buf
     (final_buffer
        (run mock_env [OpWrite [1, 2, 3]]
           (New fresh_backend [WithThreshold 1], io0 (world0\<lparr>faulty_writes := 1, fault_ack := 2\<rparr>)))) =
     Some 0 \<and>
   final_calls
     (run mock_env [OpWrite [1, 2, 3]]
        (New fresh_backend [WithThreshold 1], io0 (world0\<lparr>faulty_writes := 1, fault_ack := 2\<rparr>))) =
     Some [CallProvider, CallCreate 0, CallWrite (StoreWriter 0) [1, 2, 3]]"
  by (simp add: buffer_defs mock_defs run_defs Let_def)

text \<open>
  C8 (as amended). When a write to the spill write stream returns an error, the error
  and the byte count the stream returned go to the caller of the append as they are, and
  the buffer's size is left unchanged; the size grows by the count the stream returned
  only when the stream returned no error.
\<close>

theorem spill_write_error:
  assumes "usingStorage b" "writeStream b = Some ws" "data \<noteq> []"
    and "writeStream_Write env ws data s = ((n, err), s1)"
  shows "Write env data (b, s) =
           Some ((n, err), b\<lparr>size_buf := (if err = None then size_buf b + n else size_buf b)\<rparr>, s1)"
  using assms by (simp add: Write_def)

theorem spill_write_error_witness:
  "Write mock_env [1, 2, 3]
     ((New fresh_backend [WithThreshold 1])
        \<lparr>size_buf := 2, storageBackend := Some 0,
         writeStream := Some (WriteCloser (StoreWriter 0)), usingStorage := True\<rparr>,
      io0 (world0\<lparr>faulty_writes := 1, fault_ack := 2\<rparr>)) =
   Some ((2, Some (Failure ''simulated write failure'')),
         (New fresh_backend [WithThreshold 1])
           \<lparr>size_buf := 2, storageBackend := Some 0,
            writeStream := Some (WriteCloser (StoreWriter 0)), usingStorage := True\<rparr>,
         snd (writeStream_Write mock_env (WriteCloser (StoreWriter 0)) [1, 2, 3]
                (io0 (world0\<lparr>faulty_writes := 1, fault_ack := 2\<rparr>))))"
proof -
  let ?b = "(New fresh_backend [WithThreshold 1])
        \<lparr>size_buf := 2, storageBackend := Some 0,
         writeStream := Some (WriteCloser (StoreWriter 0)), usingStorage := True\<rparr>
        :: (codec, store_world) hybridBuffer"
  let ?s = "io0 (world0\<lparr>faulty_writes := 1, fault_ack := 2\<rparr>) :: (codec, store_world) io"
  let ?ws = "WriteCloser (StoreWriter 0) :: codec writeCloser"
  have 1: "usingStorage ?b" "writeStream ?b = Some ?ws" "[1, 2, 3 :: byte] \<noteq> []"
    by simp_all
  have 2: "writeStream_Write mock_env ?ws [1, 2, 3] ?s =
             ((2, Some (Failure ''simulated write failure'')),
              snd (writeStream_Write mock_env ?ws [1, 2, 3] ?s))"
    by (simp add: buffer_defs mock_defs)
  from spill_write_error [OF 1 2] show ?thesis
    by simp
qed

subsection \<open>Reading\<close>

text \<open>
  The claim C4 fails for an append after a read in spill mode. With threshold 1: the
  append of 1, 2 spills and opens the write stream; the read of one byte closes it and
  opens the read stream; the append of 3 finds no write stream and opens one (a second
  \<^verbatim>\<open>Create\<close>), and both streams are present.
\<close>

theorem read_write_streams_counterexample:
  "outcomes
     (run mock_env [OpWrite [1, 2], OpRead 1, OpWrite [3]]
        (New fresh_backend [WithThreshold 1], io0 world0)) =
     Some [Written 2 None, Got [1] None, Written 1 None] \<and>
   map_option writeStream
     (final_buffer
        (run mock_env [OpWrite [1, 2], OpRead 1, OpWrite [3]]
           (New fresh_backend [WithThreshold 1], io0 world0))) =
     Some (Some (WriteCloser (StoreWriter 0))) \<and>
   map_option readStream
     (final_buffer
        (run mock_env [OpWrite [1, 2], OpRead 1, OpWrite [3]]
           (New fresh_backend [WithThreshold 1], io0 world0))) =
     Some (Some (ReadCloser (StoreReader 0))) \<and>
   final_calls
     (run mock_env [OpWrite [1, 2], OpRead 1, OpWrite [3]]
        (New fresh_backend [WithThreshold 1], io0 world0)) =
     Some [CallProvider, CallCreate 0, CallWrite (StoreWriter 0) [1, 2],
           CallCloseWriter (StoreWriter 0), CallOpen 0, CallRead (StoreReader 0) 1,
           CallCreate 0, CallWrite (StoreWriter 0) [3]]"
  by (simp add: buffer_defs mock_defs run_defs Let_def)

text \<open>
  C4 (as amended). A \<^verbatim>\<open>Read\<close> that is not at the end of the data (\<open>offset < size\<close>)
  and finds a write stream closes it and forgets it before it does anything else: its
  calls are the calls that close the write stream, followed only by calls that open or
  read the read stream, and when it returns no write stream is present. (A later
  \<^verbatim>\<open>Write\<close> in spill mode opens a write stream again beside the read stream.)
\<close>

theorem read_finalizes_write_stream:
  assumes "offset b < size_buf b" and "Read env len_data (b, s) = Some (r, b', s')"
  shows "writeStream b' = None \<and>
         (\<forall>ws. writeStream b = Some ws \<longrightarrow>
            Read env len_data (b, s) =
              Read env len_data (b\<lparr>writeStream := None\<rparr>, snd (writeStream_Close env ws s)) \<and>
            (\<exists>closing rest.
               calls (snd (writeStream_Close env ws s)) = calls s @ closing \<and> closing \<noteq> [] \<and>
               (\<forall>c\<in>set closing. \<exists>wr. c = CallCloseWriter wr) \<and>
               calls s' = calls s @ closing @ rest \<and>
               (\<forall>c\<in>set rest. (\<exists>h. c = CallOpen h) \<or> (\<exists>rd k. c = CallRead rd k))))"
proof (cases "writeStream b")
  case None
  with assms(2) show ?thesis
    using Read_after_close_calls [of b env len_data s r b' s'] by simp
next
  case (Some ws)
  let ?b1 = "b\<lparr>writeStream := None\<rparr>"
  let ?s1 = "snd (writeStream_Close env ws s)"
  have eq: "Read env len_data (b, s) = Read env len_data (?b1, ?s1)"
    using Some assms(1) by (simp add: Read_def)
  with assms(2) have r1: "Read env len_data (?b1, ?s1) = Some (r, b', s')" by simp
  have w1: "writeStream ?b1 = None" by simp
  from Read_after_close_calls [OF w1 r1]
  obtain rest where rest: "writeStream b' = None" "calls s' = calls ?s1 @ rest"
    "\<forall>c\<in>set rest. (\<exists>h. c = CallOpen h) \<or> (\<exists>rd k. c = CallRead rd k)"
    by blast
  from writeStream_Close_calls [of env ws s]
  obtain closing where closing: "calls ?s1 = calls s @ closing" "closing \<noteq> []"
    "\<forall>c\<in>set closing. \<exists>wr. c = CallCloseWriter wr"
    by blast
  from rest closing eq Some show ?thesis
    by auto
qed

theorem read_finalizes_write_stream_witness:
  "map_option fst
     (Read mock_env 1
        ((New fresh_backend [WithThreshold 1])
           \<lparr>size_buf := 2, storageBackend := Some 0,
            writeStream := Some (WriteCloser (StoreWriter 0)), usingStorage := True\<rparr>,
         io0 (world0\<lparr>store_data := (\<lambda>h. [1, 2])\<rparr>))) = Some ([1], None) \<and>
   map_option (writeStream \<circ> fst \<circ> snd)
     (Read mock_env 1
        ((New fresh_backend [WithThreshold 1])
           \<lparr>size_buf := 2, storageBackend := Some 0,
            writeStream := Some (WriteCloser (StoreWriter 0)), usingStorage := True\<rparr>,
         io0 (world0\<lparr>store_data := (\<lambda>h. [1, 2])\<rparr>))) = Some None \<and>
   map_option (calls \<circ> snd \<circ> snd)
     (Read mock_env 1
        ((New fresh_backend [WithThreshold 1])
           \<lparr>size_buf := 2, storageBackend := Some 0,
            writeStream := Some (WriteCloser (StoreWriter 0)), usingStorage := True\<rparr>,
         io0 (world0\<lparr>store_data := (\<lambda>h. [1, 2])\<rparr>))) =
     Some [CallCloseWriter (StoreWriter 0), CallOpen 0, CallRead (StoreReader 0) 1]"
proof -
  let ?b = "(New fresh_backend [WithThreshold 1])
           \<lparr>size_buf := 2, storageBackend := Some 0,
            writeStream := Some (WriteCloser (StoreWriter 0)), usingStorage := True\<rparr>
           :: (codec, store_world) hybridBuffer"
  let ?s = "io0 (world0\<lparr>store_data := (\<lambda>h. [1, 2])\<rparr>) :: (codec, store_world) io"
  have lt: "offset ?b < size_buf ?b" by (simp add: New_def)
  obtain r b' s' where rd: "Read mock_env 1 (?b, ?s) = Some (r, b', s')"
    and r: "r = ([1], None)"
    and c: "calls s' = [CallCloseWriter (StoreWriter 0), CallOpen 0, CallRead (StoreReader 0) 1]"
    by (simp add: buffer_defs mock_defs Let_def)
  from read_finalizes_write_stream [OF lt rd] have "writeStream b' = None" by blast
  with rd r c show ?thesis by simp
qed

text \<open>
  The claim C10 fails where a failed spill has left its write stream behind. With
  threshold 2 and a store whose first write fails: after the appends of 1, 2 and of 3 (the
  second one fails in the spill) the buffer is in memory mode, and the read of one byte,
  which returns the byte 1 and no error, calls \<^verbatim>\<open>Close\<close> on the store's write stream.
\<close>

theorem memory_read_counterexample:
  "map_option usingStorage
     (final_buffer
        (run mock_env [OpWrite [1, 2], OpWrite [3]]
           (New fresh_backend [WithThreshold 2], io0 (world0\<lparr>faulty_writes := 1\<rparr>)))) =
     Some False \<and>
   final_calls
     (run mock_env [OpWrite [1, 2], OpWrite [3]]
        (New fresh_backend [WithThreshold 2], io0 (world0\<lparr>faulty_writes := 1\<rparr>))) =
     Some [CallProvider, CallCreate 0, CallWrite (StoreWriter 0) [1, 2]] \<and>
   map_option last
     (outcomes
        (run mock_env [OpWrite [1, 2], OpWrite [3], OpRead 1]
           (New fresh_backend [WithThreshold 2], io0 (world0\<lparr>faulty_writes := 1\<rparr>)))) =
     Some (Got [1] None) \<and>
   map_option usingStorage
     (final_buffer
        (run mock_env [OpWrite [1, 2], OpWrite [3], OpRead 1]
           (New fresh_backend [WithThreshold 2], io0 (world0\<lparr>faulty_writes := 1\<rparr>)))) =
     Some False \<and>
   final_calls
     (run mock_env [OpWrite [1, 2], OpWrite [3], OpRead 1]
        (New fresh_backend [WithThreshold 2], io0 (world0\<lparr>faulty_writes := 1\<rparr>))) =
     Some [CallProvider, CallCreate 0, CallWrite (StoreWriter 0) [1, 2],
           CallCloseWriter (StoreWriter 0)]"
  by (simp add: buffer_defs mock_defs run_defs Let_def)

text \<open>
  C10 (as amended). In memory mode (the size is the length of the memory content and the
  read position is not negative) \<^verbatim>\<open>Read\<close> never fails: it returns end-of-stream
  exactly when \<open>offset \<ge> size\<close> at the time of the call, and otherwise returns
  \<open>min(len(out), size - offset)\<close> bytes of the memory content with no error. It calls no
  collaborator, except that it closes a write stream that a failed spill has left behind.
\<close>

theorem memory_read:
  assumes "\<not> usingStorage b" "size_buf b = int (length (memoryBuffer b))" "0 \<le> offset b"
  shows "(offset b \<ge> size_buf b \<longrightarrow> Read env len_data (b, s) = Some (([], Some EOF), b, s)) \<and>
         (offset b < size_buf b \<longrightarrow>
            Read env len_data (b, s) =
              Some ((take (min len_data (nat (size_buf b - offset b))) (drop (nat (offset b)) (memoryBuffer b)),
                     None),
                    b\<lparr>writeStream := None,
                      offset := offset b + min (int len_data) (size_buf b - offset b)\<rparr>,
                    (case writeStream b of None \<Rightarrow> s | Some ws \<Rightarrow> snd (writeStream_Close env ws s))) \<and>
            int (length (take (min len_data (nat (size_buf b - offset b)))
                           (drop (nat (offset b)) (memoryBuffer b)))) =
              min (int len_data) (size_buf b - offset b))"
  using assms
  by (auto simp: Read_def Let_def min_def split: option.splits)

theorem memory_read_witness:
  "Read mock_env 5
     ((New fresh_backend [])\<lparr>memoryBuffer := [1, 2, 3], size_buf := 3, offset := 1\<rparr>, io0 world0) =
     Some (([2, 3], None),
           (New fresh_backend [])\<lparr>memoryBuffer := [1, 2, 3], size_buf := 3, offset := 3\<rparr>,
           io0 world0) \<and>
   Read mock_env 5
     ((New fresh_backend [])\<lparr>memoryBuffer := [1, 2, 3], size_buf := 3, offset := 3\<rparr>, io0 world0) =
     Some (([], Some EOF),
           (New fresh_backend [])\<lparr>memoryBuffer := [1, 2, 3], size_buf := 3, offset := 3\<rparr>,
           io0 world0)"
proof -
  let ?b1 = "(New fresh_backend [])\<lparr>memoryBuffer := [1, 2, 3], size_buf := 3, offset := 1\<rparr>
               :: (codec, store_world) hybridBuffer"
  let ?b3 = "(New fresh_backend [])\<lparr>memoryBuffer := [1, 2, 3], size_buf := 3, offset := 3\<rparr>
               :: (codec, store_world) hybridBuffer"
  let ?s = "io0 world0 :: (codec, store_world) io"
  have p1: "\<not> usingStorage ?b1" "size_buf ?b1 = int (length (memoryBuffer ?b1))" "0 \<le> offset ?b1"
    by (simp_all add: New_def)
  have p3: "\<not> usingStorage ?b3" "size_buf ?b3 = int (length (memoryBuffer ?b3))" "0 \<le> offset ?b3"
    by (simp_all add: New_def)
  from memory_read [OF p1, of mock_env 5 ?s] memory_read [OF p3, of mock_env 5 ?s]
  show ?thesis
    by (simp add: New_def)
qed

text \<open>
  C5 (the code at a failing input). Ten bytes are written and seven are read; then
  \<^verbatim>\<open>Truncate(5)\<close> leaves the size 5 and the read position 0, where the claim says
  \<open>min(7, 5) = 5\<close>, and the next read returns the bytes 0, 1, 2, 3, 4 a second time, where
  the claim says nothing remains.
\<close>

theorem truncate_loses_read_position:
  "outcomes
     (run mock_env [OpWrite [0, 1, 2, 3, 4, 5, 6, 7, 8, 9], OpRead 7, OpTruncate 5]
        (New fresh_backend [], io0 world0)) =
     Some [Written 10 None, Got [0, 1, 2, 3, 4, 5, 6] None, Done] \<and>
   map_option size_buf
     (final_buffer
        (run mock_env [OpWrite [0, 1, 2, 3, 4, 5, 6, 7, 8, 9], OpRead 7, OpTruncate 5]
           (New fresh_backend [], io0 world0))) = Some 5 \<and>
   map_option offset
     (final_buffer
        (run mock_env [OpWrite [0, 1, 2, 3, 4, 5, 6, 7, 8, 9], OpRead 7, OpTruncate 5]
           (New fresh_backend [], io0 world0))) = Some 0 \<and>
   outcomes
     (run mock_env [OpWrite [0, 1, 2, 3, 4, 5, 6, 7, 8, 9], OpRead 7, OpTruncate 5, OpRead 10]
        (New fresh_backend [], io0 world0)) =
     Some [Written 10 None, Got [0, 1, 2, 3, 4, 5, 6] None, Done, Got [0, 1, 2, 3, 4] None]"
  by (simp add: buffer_defs mock_defs run_defs Let_def)

subsection \<open>Sizes\<close>

text \<open>
  C9. In every buffer state \<^verbatim>\<open>Cap()\<close> returns what \<^verbatim>\<open>Len()\<close> returns, the number
  \<open>size - offset\<close> of unread bytes; it does not depend on the memory region or on the
  pre-allocation size.
\<close>

theorem Cap_is_Len:
  "Cap b = Len b \<and> Len b = size_buf b - offset b \<and>
   Cap (b\<lparr>memoryBuffer := m, preAllocSize := p\<rparr>) = Cap b"
  by (simp add: Cap_def Len_def)

subsection \<open>Close\<close>

text \<open>
  The claim C6 fails when two steps fail. With threshold 1 the append of 1, 2 spills. On a
  store whose streams fail to close, \<^verbatim>\<open>Close\<close> returns the stream's error; on a store
  where removing fails as well, \<^verbatim>\<open>Close\<close> makes the same calls and returns the error of
  \<^verbatim>\<open>Remove\<close>, the last one met, not the first.
\<close>

theorem close_error_counterexample:
  "outcomes
     (run mock_env [OpWrite [1, 2], OpClose]
        (New fresh_backend [WithThreshold 1], io0 (world0\<lparr>close_fault := True\<rparr>))) =
     Some [Written 2 None, Closed (Some (Failure ''close failed''))] \<and>
   final_calls
     (run mock_env [OpWrite [1, 2], OpClose]
        (New fresh_backend [WithThreshold 1], io0 (world0\<lparr>close_fault := True\<rparr>))) =
     Some [CallProvider, CallCreate 0, CallWrite (StoreWriter 0) [1, 2],
           CallCloseWriter (StoreWriter 0), CallRemove 0] \<and>
   outcomes
     (run mock_env [OpWrite [1, 2], OpClose]
        (New fresh_backend [WithThreshold 1],
         io0 (world0\<lparr>close_fault := True, remove_fault := True\<rparr>))) =
     Some [Written 2 None, Closed (Some (Failure ''remove failed''))] \<and>
   final_calls
     (run mock_env [OpWrite [1, 2], OpClose]
        (New fresh_backend [WithThreshold 1],
         io0 (world0\<lparr>close_fault := True, remove_fault := True\<rparr>))) =
     Some [CallProvider, CallCreate 0, CallWrite (StoreWriter 0) [1, 2],
           CallCloseWriter (StoreWriter 0), CallRemove 0]"
  by (simp add: buffer_defs mock_defs run_defs Let_def)

text \<open>
  C6 (as amended). \<^verbatim>\<open>Close\<close> closes the write stream, closes the read stream and
  removes the store, each step on the state the step before has left, whether or not that
  step failed; it forgets all three; it returns the error of the last step that failed (no
  error when none failed); and a second \<^verbatim>\<open>Close\<close> calls nothing, changes nothing and
  returns no error.
\<close>

theorem close_releases_everything:
  assumes "(case writeStream b of Some ws \<Rightarrow> writeStream_Close env ws s | None \<Rightarrow> (None, s)) = (e1, s1)"
    and "(case readStream b of Some rs \<Rightarrow> readStream_Close env rs s1 | None \<Rightarrow> (None, s1)) = (e2, s2)"
    and "(case storageBackend b of Some h \<Rightarrow> call_remove env h s2 | None \<Rightarrow> (None, s2)) = (e3, s3)"
  shows "Close env (b, s) =
           ((case e3 of Some e \<Rightarrow> Some e | None \<Rightarrow> (case e2 of Some e \<Rightarrow> Some e | None \<Rightarrow> e1)),
            b\<lparr>writeStream := None, readStream := None, storageBackend := None\<rparr>, s3) \<and>
         Close env (b\<lparr>writeStream := None, readStream := None, storageBackend := None\<rparr>, s3) =
           (None, b\<lparr>writeStream := None, readStream := None, storageBackend := None\<rparr>, s3)"
  using assms
  by (auto simp: Close_def split: option.splits prod.splits)

theorem close_releases_everything_witness:
  "Close mock_env
     ((New fresh_backend [WithThreshold 1])
        \<lparr>size_buf := 2, storageBackend := Some 0,
         writeStream := Some (WriteCloser (StoreWriter 0)), usingStorage := True\<rparr>,
      io0 (world0\<lparr>close_fault := True, remove_fault := True\<rparr>)) =
     (Some (Failure ''remove failed''),
      (New fresh_backend [WithThreshold 1])
        \<lparr>size_buf := 2, storageBackend := None, writeStream := None, usingStorage := True\<rparr>,
      \<lparr>world = world0\<lparr>close_fault := True, remove_fault := True\<rparr>,
       calls = [CallCloseWriter (StoreWriter 0), CallRemove 0]\<rparr>) \<and>
   Close mock_env
     ((New fresh_backend [WithThreshold 1])
        \<lparr>size_buf := 2, storageBackend := None, writeStream := None, usingStorage := True\<rparr>,
      \<lparr>world = world0\<lparr>close_fault := True, remove_fault := True\<rparr>,
       calls = [CallCloseWriter (StoreWriter 0), CallRemove 0]\<rparr>) =
     (None,
      (New fresh_backend [WithThreshold 1])
        \<lparr>size_buf := 2, storageBackend := None, writeStream := None, usingStorage := True\<rparr>,
      \<lparr>world = world0\<lparr>close_fault := True, remove_fault := True\<rparr>,
       calls = [CallCloseWriter (StoreWriter 0), CallRemove 0]\<rparr>)"
proof -
  let ?b = "(New fresh_backend [WithThreshold 1])
        \<lparr>size_buf := 2, storageBackend := Some 0,
         writeStream := Some (WriteCloser (StoreWriter 0)), usingStorage := True\<rparr>
        :: (codec, store_world) hybridBuffer"
  let ?w = "world0\<lparr>close_fault := True, remove_fault := True\<rparr>"
  let ?s = "io0 ?w :: (codec, store_world) io"
  let ?s1 = "\<lparr>world = ?w, calls = [CallCloseWriter (StoreWriter 0)]\<rparr> :: (codec, store_world) io"
  let ?s3 = "\<lparr>world = ?w, calls = [CallCloseWriter (StoreWriter 0), CallRemove 0]\<rparr>
               :: (codec, store_world) io"
  have 1: "(case writeStream ?b of Some ws \<Rightarrow> writeStream_Close mock_env ws ?s | None \<Rightarrow> (None, ?s)) =
             (Some (Failure ''close failed''), ?s1)"
    by (simp add: buffer_defs mock_defs)
  have 2: "(case readStream ?b of Some rs \<Rightarrow> readStream_Close mock_env rs ?s1 | None \<Rightarrow> (None, ?s1)) =
             (None, ?s1)"
    by (simp add: buffer_defs mock_defs)
  have 3: "(case storageBackend ?b of Some h \<Rightarrow> call_remove mock_env h ?s1 | None \<Rightarrow> (None, ?s1)) =
             (Some (Failure ''remove failed''), ?s3)"
    by (simp add: buffer_defs mock_defs fun_upd_idem_iff)
  have r: "readStream ?b = None" by (simp add: New_def)
  from close_releases_everything [OF 1 2 3] r show ?thesis
    by (simp add: New_def)
qed

end
